theory Spec2Isabelle
  imports Main "HOL-Library.AList"
begin

section \<open>JavaScript values and JSON\<close>

text \<open>
  The backend (src/index.js) keeps schemaless records in one JSON file. A value stored in
  the file is a JSON scalar; a value in memory may also be \<open>undefined\<close> (a field missing
  from a request or from a record) or \<open>NaN\<close> (a failed \<open>Number(...)\<close>). Numbers are
  the integers the program produces (\<open>Date.now()\<close>, slot numbers, priorities).
\<close>

datatype json = JsNull | JsBool bool | JsNum int | JsStr string

datatype jval = Undefined | NaN | J json

abbreviation JStr :: "string \<Rightarrow> jval" where "JStr s \<equiv> J (JsStr s)"
abbreviation JNum :: "int \<Rightarrow> jval" where "JNum n \<equiv> J (JsNum n)"
abbreviation JBool :: "bool \<Rightarrow> jval" where "JBool b \<equiv> J (JsBool b)"

text \<open>A record in memory and a record in the file: property lists in insertion order.\<close>

type_synonym obj = "(string \<times> jval) list"
type_synonym jobj = "(string \<times> json) list"

text \<open>\<open>o.k\<close>: a missing property reads as \<open>undefined\<close>.\<close>

definition get :: "obj \<Rightarrow> string \<Rightarrow> jval" where
  "get ob k = (case map_of ob k of Some v \<Rightarrow> v | None \<Rightarrow> Undefined)"

text \<open>
  \<open>{...ob, k: v}\<close>: an existing property keeps its place and takes the new value, a new
  one goes to the end.
\<close>

definition spread_set :: "obj \<Rightarrow> (string \<times> jval) list \<Rightarrow> obj" where
  "spread_set ob kvs = fold (\<lambda>(k, v) acc. AList.update k v acc) kvs ob"

text \<open>Truthiness, \<open>a || b\<close> and \<open>a === b\<close>.\<close>

fun truthy :: "jval \<Rightarrow> bool" where
  "truthy Undefined = False"
| "truthy NaN = False"
| "truthy (J JsNull) = False"
| "truthy (J (JsBool b)) = b"
| "truthy (J (JsNum n)) = (n \<noteq> 0)"
| "truthy (J (JsStr s)) = (s \<noteq> [])"

definition js_or :: "jval \<Rightarrow> jval \<Rightarrow> jval" where
  "js_or a b = (if truthy a then a else b)"

definition strict_eq :: "jval \<Rightarrow> jval \<Rightarrow> bool" where
  "strict_eq a b = (a = b \<and> a \<noteq> NaN)"

text \<open>
  \<open>JSON.stringify\<close> on a record drops the properties whose value is \<open>undefined\<close> and
  writes \<open>NaN\<close> as \<open>null\<close>; \<open>JSON.parse\<close> gives every stored value back.
\<close>

fun stringify :: "obj \<Rightarrow> jobj" where
  "stringify [] = []"
| "stringify ((k, Undefined) # ps) = stringify ps"
| "stringify ((k, NaN) # ps) = (k, JsNull) # stringify ps"
| "stringify ((k, J v) # ps) = (k, v) # stringify ps"

definition parse :: "jobj \<Rightarrow> obj" where
  "parse r = map (\<lambda>(k, v). (k, J v)) r"

section \<open>The document store\<close>

text \<open>
  The document is one object whose top-level keys hold arrays of records. A key may be
  missing (\<open>None\<close>): the code tests for that with \<open>!data.k\<close> and \<open>data.k || []\<close>.
  The type is shared by the document in memory (\<open>obj document\<close>) and the document in the
  file (\<open>jobj document\<close>).
\<close>

record 'r document =
  posters :: "'r list option"
  breakingNews :: "'r list option"
  featuredStories :: "'r list option"
  categories :: "'r list option"
  users :: "'r list option"
  media :: "'r list option"
  news :: "'r list option"
  staticPages :: "'r list option"
  tickers :: "'r list option"
  tools :: "'r list option"
  ads :: "'r list option"
  activities :: "'r list option"

definition map_document :: "('a \<Rightarrow> 'b) \<Rightarrow> 'a document \<Rightarrow> 'b document" where
  "map_document f d =
     \<lparr>posters = map_option (map f) (posters d),
      breakingNews = map_option (map f) (breakingNews d),
      featuredStories = map_option (map f) (featuredStories d),
      categories = map_option (map f) (categories d),
      users = map_option (map f) (users d),
      media = map_option (map f) (media d),
      news = map_option (map f) (news d),
      staticPages = map_option (map f) (staticPages d),
      tickers = map_option (map f) (tickers d),
      tools = map_option (map f) (tools d),
      ads = map_option (map f) (ads d),
      activities = map_option (map f) (activities d)\<rparr>"

text \<open>A file handed to multer, and one call of \<open>cloudinary.uploader.upload\<close>.\<close>

record upfile =
  fieldname :: string
  originalname :: string
  mimetype :: string
  path :: string

text \<open>
  The world outside a request: the contents of \<open>./data.json\<close> (\<open>None\<close> when the file
  does not exist) and the uploads sent to the media host so far, oldest first.
\<close>

record world =
  datafile :: "jobj document option"
  cloud_calls :: "(upfile \<times> string) list"

text \<open>
  What a request reads from outside the repository: the media host's answer to an upload
  (\<open>Inl\<close> the error message, \<open>Inr\<close> the \<open>secure_url\<close>), the builtin \<open>Number\<close>, Node's
  \<open>path.extname\<close>, and the clock: \<open>Date.now()\<close> and \<open>new Date().toISOString()\<close> as
  read by the handler, and as read later by \<open>logActivity\<close>.
\<close>

record env =
  cloud :: "upfile \<Rightarrow> string \<Rightarrow> string + string"
  Number_js :: "jval \<Rightarrow> jval"
  extname :: "string \<Rightarrow> string"
  now :: int
  iso :: string
  now_log :: int
  iso_log :: string

text \<open>
  \<open>readData\<close> (lines 105-122) and \<open>writeData\<close> (lines 124-126). A data file that
  exists is taken to hold a document of this shape, so that \<open>JSON.parse\<close> does not throw
  and every collection that is present is an array of records with scalar fields.
\<close>

definition readData :: "world \<Rightarrow> obj document" where
  "readData w =
     (case datafile w of
        None \<Rightarrow>
          \<lparr>posters = Some [], breakingNews = Some [], featuredStories = Some [],
           categories = Some [], users = Some [], media = Some [], news = Some [],
           staticPages = Some [], tickers = Some [], tools = Some [], ads = Some [],
           activities = None\<rparr>
      | Some d \<Rightarrow> map_document parse d)"

definition writeData :: "obj document \<Rightarrow> world \<Rightarrow> world" where
  "writeData d w = w\<lparr>datafile := Some (map_document stringify d)\<rparr>"

text \<open>\<open>data.k || []\<close>, and \<open>if (!data.k) data.k = []\<close> followed by a read of \<open>data.k\<close>.\<close>

definition or_empty :: "'a list option \<Rightarrow> 'a list" where
  "or_empty c = (case c of None \<Rightarrow> [] | Some xs \<Rightarrow> xs)"

section \<open>The activity log\<close>

text \<open>\<open>logActivity\<close> (lines 129-146), with its two default parameters.\<close>

definition logActivity :: "env \<Rightarrow> jval \<Rightarrow> jval \<Rightarrow> jval \<Rightarrow> jval \<Rightarrow> world \<Rightarrow> obj \<times> world" where
  "logActivity e type title user status w =
     (let user = (if user = Undefined then JStr ''Admin User'' else user);
          status = (if status = Undefined then JStr ''completed'' else status);
          data = readData w;
          acts = or_empty (activities data);
          activity = [(''id'', JNum (now_log e)), (''type'', type), (''title'', title),
                      (''user'', user), (''status'', status),
                      (''timestamp'', JStr (iso_log e))];
          acts = take 50 (activity # acts)
      in (activity, writeData (data\<lparr>activities := Some acts\<rparr>) w))"

section \<open>Requests, responses and the upload gateway\<close>

text \<open>
  A request after body parsing: the text fields, the attached files in the order they
  arrive, and the \<open>:id\<close> segment of the path.
\<close>

record request =
  req_body :: obj
  req_files :: "upfile list"
  params_id :: string

text \<open>
  A response: \<open>res.json\<close> serialises its argument, so a body holds stored-form records.
  \<open>ObjWith ps k r\<close> is the object with the scalar properties \<open>ps\<close> and the record
  \<open>r\<close> under key \<open>k\<close>; \<open>Empty\<close> is \<open>res.json(undefined)\<close>; \<open>ErrorPage\<close> is what
  Express itself answers when an error reaches it (an error thrown by a handler without
  \<open>try\<close>, or passed on by multer).
\<close>

datatype body = Obj jobj | Arr "jobj list" | ObjWith jobj string jobj | Empty | ErrorPage string

record response =
  status :: nat
  body :: body

definition res_json :: "nat \<Rightarrow> obj \<Rightarrow> response" where
  "res_json st ob = \<lparr>status = st, body = Obj (stringify ob)\<rparr>"

definition res_json_arr :: "nat \<Rightarrow> obj list \<Rightarrow> response" where
  "res_json_arr st xs = \<lparr>status = st, body = Arr (map stringify xs)\<rparr>"

definition express_error :: "string \<Rightarrow> response" where
  "express_error m = \<lparr>status = 500, body = ErrorPage m\<rparr>"

text \<open>
  \<open>uploadToCloudinary\<close> (lines 149-177): \<open>Inl\<close> is the message of the error it throws.
  Every caller passes an existing file object, so \<open>!file\<close> is the empty \<open>path\<close> alone.
  The call to the media host is recorded in \<open>cloud_calls\<close>; the removal of the local
  staging copy is not modelled.
\<close>

definition uploadToCloudinary :: "env \<Rightarrow> upfile \<Rightarrow> string \<Rightarrow> world \<Rightarrow> (string + string) \<times> world" where
  "uploadToCloudinary e file folder w =
     (if path file = [] then (Inl ''Invalid file provided for upload'', w)
      else
        (let w' = w\<lparr>cloud_calls := cloud_calls w @ [(file, folder)]\<rparr>
         in case cloud e file folder of
              Inl m \<Rightarrow> (Inl (''Failed to upload to Cloudinary: '' @ m), w')
            | Inr url \<Rightarrow> (Inr url, w')))"

text \<open>
  The pattern \<open>if (files && files[0]) { url = await uploadToCloudinary(files[0], folder) }\<close>:
  \<open>url\<close> keeps its previous value \<open>prev\<close> when no file is attached.
\<close>

definition upload_first :: "env \<Rightarrow> upfile list \<Rightarrow> string \<Rightarrow> jval \<Rightarrow> world \<Rightarrow> (string + jval) \<times> world" where
  "upload_first e fs folder prev w =
     (case fs of
        [] \<Rightarrow> (Inr prev, w)
      | f # _ \<Rightarrow>
          (case uploadToCloudinary e f folder w of
             (Inl m, w') \<Rightarrow> (Inl m, w')
           | (Inr url, w') \<Rightarrow> (Inr (JStr url), w')))"

definition files_by_field :: "request \<Rightarrow> string \<Rightarrow> upfile list" where
  "files_by_field req name = filter (\<lambda>f. fieldname f = name) (req_files req)"

section \<open>File admission\<close>

text \<open>
  The filters test unanchored regular expressions that are alternations of literals:
  \<open>/a|b/.test(s)\<close> holds when one of the literals occurs somewhere in \<open>s\<close>.
\<close>

fun starts_with :: "string \<Rightarrow> string \<Rightarrow> bool" where
  "starts_with [] s = True"
| "starts_with (a # as) [] = False"
| "starts_with (a # as) (b # bs) = (a = b \<and> starts_with as bs)"

fun occurs_in :: "string \<Rightarrow> string \<Rightarrow> bool" where
  "occurs_in lit [] = (lit = [])"
| "occurs_in lit (c # cs) = (starts_with lit (c # cs) \<or> occurs_in lit cs)"

definition regex_test :: "string list \<Rightarrow> string \<Rightarrow> bool" where
  "regex_test alts s = list_ex (\<lambda>lit. occurs_in lit s) alts"

definition lower_char :: "char \<Rightarrow> char" where
  "lower_char c =
     (if 65 \<le> (of_char c :: nat) \<and> (of_char c :: nat) \<le> 90 then char_of (of_char c + 32 :: nat) else c)"

definition toLowerCase :: "string \<Rightarrow> string" where
  "toLowerCase s = map lower_char s"

text \<open>The \<open>fileFilter\<close> of \<open>posterUpload\<close> (lines 193-211): \<open>Inl\<close> is the error's message.\<close>

definition posterUpload_fileFilter :: "env \<Rightarrow> upfile \<Rightarrow> string + unit" where
  "posterUpload_fileFilter e file =
     (let imageExtTypes = [''jpeg'', ''jpg'', ''png'', ''gif'', ''webp'', ''avif''];
          imageMimeTypes = [''image/jpeg'', ''image/jpg'', ''image/png'', ''image/gif'',
                            ''image/webp'', ''image/avif''];
          ext = toLowerCase (extname e (originalname file));
          extname = regex_test imageExtTypes ext;
          mimetype = regex_test imageMimeTypes (mimetype file)
      in if extname \<and> mimetype then Inr ()
         else Inl (''Invalid file type. Only JPEG, JPG, PNG, GIF, WebP, and AVIF are allowed. Got: ''
                   @ upfile.mimetype file @ '' with extension: '' @ ext))"

text \<open>The \<open>fileFilter\<close> of \<open>breakingNewsUpload\<close> (lines 74-101).\<close>

definition breakingNewsUpload_fileFilter :: "env \<Rightarrow> upfile \<Rightarrow> string + unit" where
  "breakingNewsUpload_fileFilter e file =
     (let videoExtTypes = [''mp4'', ''mov'', ''avi'', ''wmv''];
          videoMimeTypes = [''video/mp4'', ''video/quicktime'', ''video/avi'', ''video/x-msvideo''];
          imageExtTypes = [''jpeg'', ''jpg'', ''png'', ''gif'', ''webp''];
          imageMimeTypes = [''image/jpeg'', ''image/jpg'', ''image/png'', ''image/gif'',
                            ''image/webp''];
          ext = toLowerCase (extname e (originalname file));
          isValidVideo = (regex_test videoExtTypes ext \<and> regex_test videoMimeTypes (mimetype file));
          isValidImage = (regex_test imageExtTypes ext \<and> regex_test imageMimeTypes (mimetype file))
      in if isValidVideo \<or> isValidImage then Inr ()
         else Inl (''Invalid file type. Only video (MP4, MOV, AVI, WMV) and image (JPEG, JPG, PNG, GIF, WebP) files are allowed. Got: ''
                   @ mimetype file @ '' with extension: '' @ ext))"

text \<open>
  The multer middleware in front of a handler: it hands each incoming file to the filter,
  in order, before the file is stored, and passes the first error to Express, which
  answers without running the handler. With \<open>.single\<close> and \<open>.fields\<close> a file on a field
  that is not expected (or one too many on a field) is an error as well; \<open>.any()\<close> has no
  such limit (\<open>None\<close>).
\<close>

fun multer :: "(string \<times> nat) list option \<Rightarrow> (upfile \<Rightarrow> string + unit) \<Rightarrow> upfile list \<Rightarrow> string + upfile list" where
  "multer lim flt [] = Inr []"
| "multer None flt (f # fs) =
     (case flt f of
        Inl m \<Rightarrow> Inl m
      | Inr _ \<Rightarrow> (case multer None flt fs of Inl m \<Rightarrow> Inl m | Inr acc \<Rightarrow> Inr (f # acc)))"
| "multer (Some left) flt (f # fs) =
     (case map_of left (fieldname f) of
        Some (Suc n) \<Rightarrow>
          (case flt f of
             Inl m \<Rightarrow> Inl m
           | Inr _ \<Rightarrow>
               (case multer (Some (AList.update (fieldname f) n left)) flt fs of
                  Inl m \<Rightarrow> Inl m
                | Inr acc \<Rightarrow> Inr (f # acc)))
      | _ \<Rightarrow> Inl ''Unexpected field'')"

definition with_upload ::
  "(string \<times> nat) list option \<Rightarrow> (upfile \<Rightarrow> string + unit) \<Rightarrow>
   (request \<Rightarrow> world \<Rightarrow> response \<times> world) \<Rightarrow> request \<Rightarrow> world \<Rightarrow> response \<times> world" where
  "with_upload lim flt handler req w =
     (case multer lim flt (req_files req) of
        Inl m \<Rightarrow> (express_error m, w)
      | Inr fs \<Rightarrow> handler (req\<lparr>req_files := fs\<rparr>) w)"

section \<open>Helpers of the handlers\<close>

text \<open>\<open>xs.findIndex(p)\<close>, with \<open>None\<close> for \<open>-1\<close>, and \<open>xs.splice(idx, 1)\<close>.\<close>

fun findIndex :: "('a \<Rightarrow> bool) \<Rightarrow> 'a list \<Rightarrow> nat option" where
  "findIndex p [] = None"
| "findIndex p (x # xs) =
     (if p x then Some 0 else (case findIndex p xs of None \<Rightarrow> None | Some i \<Rightarrow> Some (Suc i)))"

definition splice1 :: "nat \<Rightarrow> 'a list \<Rightarrow> 'a list" where
  "splice1 idx xs = take idx xs @ drop (Suc idx) xs"

text \<open>
  \<open>`"${t.substring(0, 50)}${t.length > 50 ? '...' : ''}"`\<close>: \<open>None\<close> is the TypeError
  raised when \<open>t\<close> is not a string.
\<close>

definition title_snippet :: "jval \<Rightarrow> string option" where
  "title_snippet t =
     (case t of
        J (JsStr s) \<Rightarrow> Some (CHR 0x22 # take 50 s @ (if length s > 50 then ''...'' else []) @ [CHR 0x22])
      | _ \<Rightarrow> None)"

text \<open>The message of the TypeError of a method call on a missing collection.\<close>

definition type_error :: string where
  "type_error = ''Cannot read properties of undefined''"

text \<open>The slot number inside a field name: \<open>`poster${i}Title`\<close>, for \<open>i\<close> from 1 to 3.\<close>

definition digit :: "nat \<Rightarrow> string" where
  "digit i = [char_of (48 + i)]"

text \<open>\<open>Number(req.params.id)\<close>.\<close>

definition param_id :: "env \<Rightarrow> request \<Rightarrow> jval" where
  "param_id e req = Number_js e (JStr (params_id req))"

section \<open>Authentication\<close>

text \<open>POST /api/auth/login (lines 180-190).\<close>

definition login :: "request \<Rightarrow> world \<Rightarrow> response \<times> world" where
  "login req w =
     (let username = get (req_body req) ''username'';
          password = get (req_body req) ''password'';
          data = readData w
      in case users data of
           None \<Rightarrow> (express_error type_error, w)
         | Some us \<Rightarrow>
             (case find (\<lambda>u. strict_eq (get u ''username'') username \<and>
                             strict_eq (get u ''password'') password) us of
                Some user \<Rightarrow>
                  (\<lparr>status = 200,
                    body = ObjWith [(''success'', JsBool True)] ''user''
                             (stringify (spread_set user [(''password'', Undefined)]))\<rparr>, w)
              | None \<Rightarrow>
                  (res_json 401 [(''success'', JBool False),
                                 (''message'', JStr ''Invalid credentials'')], w)))"

section \<open>Posters\<close>

text \<open>The loop of GET /api/posters (lines 218-220).\<close>

function pad_posters :: "obj list \<Rightarrow> obj list" where
  "pad_posters ps =
     (if length ps < 3
      then pad_posters (ps @ [[(''id'', JNum (int (length ps) + 1)), (''title'', JStr []),
                                    (''image'', JStr []), (''link'', JStr [])]])
      else ps)"
  by pat_completeness auto
termination
  by (relation "measure (\<lambda>ps. 3 - length ps)") auto

text \<open>GET /api/posters (lines 213-227).\<close>

definition get_posters :: "world \<Rightarrow> response \<times> world" where
  "get_posters w =
     (let data = readData w;
          ps = or_empty (posters data)
      in (res_json_arr 200 (pad_posters ps), w))"

text \<open>
  The loop of POST /api/posters (lines 252-276) over the slots still to do; \<open>Inl\<close> is
  the message of the upload error it rethrows.
\<close>

fun poster_slots :: "env \<Rightarrow> request \<Rightarrow> nat list \<Rightarrow> obj list \<Rightarrow> world \<Rightarrow> (string + obj list) \<times> world" where
  "poster_slots e req [] ps w = (Inr ps, w)"
| "poster_slots e req (i # rest) ps w =
     (let title = get (req_body req) (''poster'' @ digit i @ ''Title'');
          link = get (req_body req) (''poster'' @ digit i @ ''Link'');
          imageUrl = get (req_body req) (''poster'' @ digit i @ ''ImageUrl'');
          files = files_by_field req (''posterImage'' @ digit i)
      in case upload_first e files ''posters'' imageUrl w of
           (Inl m, w') \<Rightarrow> (Inl m, w')
         | (Inr imageUrl, w') \<Rightarrow>
             poster_slots e req rest
               (ps @ [[(''id'', JNum (int i)),
                            (''title'', js_or title (JStr [])),
                            (''image'', js_or imageUrl (JStr [])),
                            (''link'', js_or link (JStr []))]]) w')"

text \<open>
  POST /api/posters (lines 229-287). The document is read before the uploads and written
  after them; \<open>data.posters\<close> is overwritten whatever it held.
\<close>

definition post_posters :: "env \<Rightarrow> request \<Rightarrow> world \<Rightarrow> response \<times> world" where
  "post_posters e req w =
     (let data = readData w
      in case poster_slots e req [1, 2, 3] [] w of
           (Inl m, w') \<Rightarrow>
             (res_json 500 [(''error'', JStr (''Failed to update posters: '' @ m))], w')
         | (Inr ps, w') \<Rightarrow>
             (res_json_arr 200 ps, writeData (data\<lparr>posters := Some ps\<rparr>) w'))"

section \<open>Breaking news\<close>

text \<open>GET /api/breaking-news (lines 290-293).\<close>

definition get_breaking_news :: "world \<Rightarrow> response \<times> world" where
  "get_breaking_news w =
     (case breakingNews (readData w) of
        None \<Rightarrow> (\<lparr>status = 200, body = Empty\<rparr>, w)
      | Some bn \<Rightarrow> (res_json_arr 200 bn, w))"

text \<open>POST /api/breaking-news (lines 295-351).\<close>

definition post_breaking_news :: "env \<Rightarrow> request \<Rightarrow> world \<Rightarrow> response \<times> world" where
  "post_breaking_news e req w =
     (let headline = get (req_body req) ''headline'';
          shortDescription = get (req_body req) ''shortDescription'';
          fullDescription = get (req_body req) ''fullDescription'';
          category = get (req_body req) ''category'';
          state = get (req_body req) ''state'';
          youtubeUrl = get (req_body req) ''youtubeUrl'';
          data = readData w
      in case upload_first e (files_by_field req ''video'') ''breaking-news'' (JStr []) w of
           (Inl m, w1) \<Rightarrow>
             (res_json 500 [(''error'', JStr ''Failed to upload video''), (''details'', JStr m)], w1)
         | (Inr videoUrl, w1) \<Rightarrow>
             (case upload_first e (files_by_field req ''thumbnail'') ''breaking-news-thumbnails''
                     (JStr []) w1 of
                (Inl m, w2) \<Rightarrow>
                  (res_json 500 [(''error'', JStr ''Failed to upload thumbnail''),
                                 (''details'', JStr m)], w2)
              | (Inr thumbnailUrl, w2) \<Rightarrow>
                  (let newNews = [(''id'', JNum (now e)),
                                  (''headline'', headline),
                                  (''shortDescription'', shortDescription),
                                  (''fullDescription'', fullDescription),
                                  (''category'', category),
                                  (''state'', state),
                                  (''videoUrl'', videoUrl),
                                  (''thumbnail'', js_or thumbnailUrl (JStr [])),
                                  (''youtubeUrl'', js_or youtubeUrl (JStr [])),
                                  (''timestamp'', JStr (iso e))]
                   in case breakingNews data of
                        None \<Rightarrow>
                          (res_json 500 [(''error'', JStr ''Failed to add breaking news''),
                                         (''details'', JStr type_error)], w2)
                      | Some bn \<Rightarrow>
                          (res_json 200 newNews,
                           writeData (data\<lparr>breakingNews := Some (newNews # bn)\<rparr>) w2))))"

text \<open>PUT /api/breaking-news/:id (lines 354-419).\<close>

definition put_breaking_news :: "env \<Rightarrow> request \<Rightarrow> world \<Rightarrow> response \<times> world" where
  "put_breaking_news e req w =
     (let id = param_id e req;
          data = readData w
      in case breakingNews data of
           None \<Rightarrow>
             (res_json 500 [(''error'', JStr ''Failed to update breaking news''),
                            (''details'', JStr type_error)], w)
         | Some bn \<Rightarrow>
             (case findIndex (\<lambda>b. strict_eq (get b ''id'') id) bn of
                None \<Rightarrow> (res_json 404 [(''error'', JStr ''Breaking news not found'')], w)
              | Some idx \<Rightarrow>
                  (let headline = get (req_body req) ''headline'';
                       shortDescription = get (req_body req) ''shortDescription'';
                       fullDescription = get (req_body req) ''fullDescription'';
                       category = get (req_body req) ''category'';
                       state = get (req_body req) ''state'';
                       youtubeUrl = get (req_body req) ''youtubeUrl'';
                       existing = bn ! idx;
                       videoUrl = js_or (get existing ''videoUrl'') (JStr []);
                       thumbnailUrl = js_or (get existing ''thumbnail'') (JStr [])
                   in case upload_first e (files_by_field req ''video'') ''breaking-news'' videoUrl w of
                        (Inl m, w1) \<Rightarrow>
                          (res_json 500 [(''error'', JStr ''Failed to upload video''),
                                         (''details'', JStr m)], w1)
                      | (Inr videoUrl, w1) \<Rightarrow>
                          (case upload_first e (files_by_field req ''thumbnail'')
                                  ''breaking-news-thumbnails'' thumbnailUrl w1 of
                             (Inl m, w2) \<Rightarrow>
                               (res_json 500 [(''error'', JStr ''Failed to upload thumbnail''),
                                              (''details'', JStr m)], w2)
                           | (Inr thumbnailUrl, w2) \<Rightarrow>
                               (let updated = spread_set existing
                                      [(''headline'', if headline \<noteq> Undefined then headline
                                                      else get existing ''headline''),
                                       (''shortDescription'', if shortDescription \<noteq> Undefined
                                                      then shortDescription
                                                      else get existing ''shortDescription''),
                                       (''fullDescription'', if fullDescription \<noteq> Undefined
                                                      then fullDescription
                                                      else get existing ''fullDescription''),
                                       (''category'', if category \<noteq> Undefined then category
                                                      else get existing ''category''),
                                       (''state'', if state \<noteq> Undefined then state
                                                      else get existing ''state''),
                                       (''youtubeUrl'', if youtubeUrl \<noteq> Undefined then youtubeUrl
                                                      else get existing ''youtubeUrl''),
                                       (''videoUrl'', videoUrl),
                                       (''thumbnail'', thumbnailUrl),
                                       (''timestamp'', JStr (iso e))]
                                in (res_json 200 updated,
                                    writeData (data\<lparr>breakingNews := Some (bn[idx := updated])\<rparr>) w2))))))"

text \<open>DELETE /api/breaking-news/:id (lines 422-435).\<close>

definition delete_breaking_news :: "env \<Rightarrow> request \<Rightarrow> world \<Rightarrow> response \<times> world" where
  "delete_breaking_news e req w =
     (let id = param_id e req;
          data = readData w
      in case breakingNews data of
           None \<Rightarrow> (res_json 500 [(''error'', JStr ''Failed to delete breaking news'')], w)
         | Some bn \<Rightarrow>
             (case findIndex (\<lambda>b. strict_eq (get b ''id'') id) bn of
                None \<Rightarrow> (res_json 404 [(''error'', JStr ''Breaking news not found'')], w)
              | Some idx \<Rightarrow>
                  (res_json 200 [(''success'', JBool True)],
                   writeData (data\<lparr>breakingNews := Some (splice1 idx bn)\<rparr>) w)))"

section \<open>Featured stories\<close>

text \<open>GET /api/featured-stories (lines 454-462).\<close>

definition get_featured_stories :: "world \<Rightarrow> response \<times> world" where
  "get_featured_stories w = (res_json_arr 200 (or_empty (featuredStories (readData w))), w)"

text \<open>
  POST /api/featured-stories (lines 465-511). After \<open>posterUpload.single('image')\<close> the
  request holds at most one file, \<open>req.file\<close>.
\<close>

definition post_featured_stories :: "env \<Rightarrow> request \<Rightarrow> world \<Rightarrow> response \<times> world" where
  "post_featured_stories e req w =
     (let title = get (req_body req) ''title'';
          description = get (req_body req) ''description'';
          content = get (req_body req) ''content'';
          category = get (req_body req) ''category'';
          state = get (req_body req) ''state'';
          excerpt = get (req_body req) ''excerpt'';
          priority = get (req_body req) ''priority''
      in case upload_first e (req_files req) ''featured-stories'' (JStr []) w of
           (Inl m, w1) \<Rightarrow>
             (res_json 500 [(''error'', JStr ''Failed to upload image''), (''details'', JStr m)], w1)
         | (Inr imageUrl, w1) \<Rightarrow>
             (let data = readData w1;
                  newStory = [(''id'', JNum (now e)),
                              (''title'', title),
                              (''description'', description),
                              (''content'', js_or content description),
                              (''category'', category),
                              (''state'', state),
                              (''excerpt'', js_or excerpt description),
                              (''imageUrl'', imageUrl),
                              (''priority'', if truthy priority then Number_js e priority else JNum 1),
                              (''views'', JStr ''0''),
                              (''timestamp'', JStr (iso e))];
                  w2 = writeData (data\<lparr>featuredStories :=
                                     Some (or_empty (featuredStories data) @ [newStory])\<rparr>) w1
              in case title_snippet title of
                   None \<Rightarrow>
                     (res_json 500 [(''error'', JStr ''Failed to create featured story''),
                                    (''details'', JStr type_error)], w2)
                 | Some t \<Rightarrow>
                     (res_json 201 newStory,
                      snd (logActivity e (JStr ''featured-story'')
                             (JStr (''New featured story published: '' @ t))
                             (JStr ''Admin User'') (JStr ''published'') w2))))"

text \<open>PUT /api/featured-stories/:id (lines 514-559).\<close>

definition put_featured_stories :: "env \<Rightarrow> request \<Rightarrow> world \<Rightarrow> response \<times> world" where
  "put_featured_stories e req w =
     (let id = param_id e req;
          title = get (req_body req) ''title'';
          description = get (req_body req) ''description'';
          content = get (req_body req) ''content'';
          category = get (req_body req) ''category'';
          state = get (req_body req) ''state'';
          excerpt = get (req_body req) ''excerpt'';
          priority = get (req_body req) ''priority'';
          data = readData w
      in case featuredStories data of
           None \<Rightarrow>
             (res_json 500 [(''error'', JStr ''Failed to update featured story''),
                            (''details'', JStr type_error)], w)
         | Some fs \<Rightarrow>
             (case findIndex (\<lambda>s. strict_eq (get s ''id'') id) fs of
                None \<Rightarrow> (res_json 404 [(''error'', JStr ''Featured story not found'')], w)
              | Some storyIdx \<Rightarrow>
                  (case upload_first e (req_files req) ''featured-stories''
                          (get (fs ! storyIdx) ''imageUrl'') w of
                     (Inl m, w1) \<Rightarrow>
                       (res_json 500 [(''error'', JStr ''Failed to upload image''),
                                      (''details'', JStr m)], w1)
                   | (Inr imageUrl, w1) \<Rightarrow>
                       (let updated = spread_set (fs ! storyIdx)
                              [(''title'', title),
                               (''description'', description),
                               (''content'', js_or content description),
                               (''category'', category),
                               (''state'', state),
                               (''excerpt'', js_or excerpt description),
                               (''imageUrl'', imageUrl),
                               (''priority'', if truthy priority then Number_js e priority
                                              else get (fs ! storyIdx) ''priority''),
                               (''timestamp'', JStr (iso e))];
                            w2 = writeData (data\<lparr>featuredStories := Some (fs[storyIdx := updated])\<rparr>) w1
                        in case title_snippet title of
                             None \<Rightarrow>
                               (res_json 500 [(''error'', JStr ''Failed to update featured story''),
                                              (''details'', JStr type_error)], w2)
                           | Some t \<Rightarrow>
                               (res_json 200 updated,
                                snd (logActivity e (JStr ''featured-story'')
                                       (JStr (''Featured story updated: '' @ t))
                                       (JStr ''Admin User'') (JStr ''updated'') w2))))))"

text \<open>DELETE /api/featured-stories/:id (lines 562-583).\<close>

definition delete_featured_stories :: "env \<Rightarrow> request \<Rightarrow> world \<Rightarrow> response \<times> world" where
  "delete_featured_stories e req w =
     (let id = param_id e req;
          data = readData w;
          fs = or_empty (featuredStories data)
      in case findIndex (\<lambda>s. strict_eq (get s ''id'') id) fs of
           None \<Rightarrow> (res_json 404 [(''error'', JStr ''Featured story not found'')], w)
         | Some idx \<Rightarrow>
             (let deletedStory = fs ! idx;
                  w1 = writeData (data\<lparr>featuredStories := Some (splice1 idx fs)\<rparr>) w
              in case title_snippet (get deletedStory ''title'') of
                   None \<Rightarrow> (res_json 500 [(''error'', JStr ''Failed to delete featured story'')], w1)
                 | Some t \<Rightarrow>
                     (res_json 200 [(''success'', JBool True)],
                      snd (logActivity e (JStr ''featured-story'')
                             (JStr (''Featured story deleted: '' @ t))
                             (JStr ''Admin User'') (JStr ''deleted'') w1))))"

section \<open>Categories, media, activities\<close>

text \<open>
  POST /api/categories (lines 639-651). The handler has no \<open>try\<close>: the TypeError of
  \<open>push\<close> on a missing collection goes to Express.
\<close>

definition post_categories :: "env \<Rightarrow> request \<Rightarrow> world \<Rightarrow> response \<times> world" where
  "post_categories e req w =
     (let name = get (req_body req) ''name'';
          description = get (req_body req) ''description'';
          data = readData w;
          newCategory = [(''id'', JNum (now e)), (''name'', name), (''description'', description),
                         (''timestamp'', JStr (iso e))]
      in case categories data of
           None \<Rightarrow> (express_error type_error, w)
         | Some cs \<Rightarrow>
             (res_json 200 newCategory, writeData (data\<lparr>categories := Some (cs @ [newCategory])\<rparr>) w))"

text \<open>POST /api/media (lines 654-678), behind \<open>posterUpload.single('file')\<close>.\<close>

definition post_media :: "env \<Rightarrow> request \<Rightarrow> world \<Rightarrow> response \<times> world" where
  "post_media e req w =
     (let title = get (req_body req) ''title'';
          description = get (req_body req) ''description''
      in case req_files req of
           [] \<Rightarrow> (res_json 400 [(''error'', JStr ''No file uploaded'')], w)
         | file # _ \<Rightarrow>
             (case uploadToCloudinary e file ''media'' w of
                (Inl m, w1) \<Rightarrow> (res_json 500 [(''error'', JStr ''Failed to upload media'')], w1)
              | (Inr fileUrl, w1) \<Rightarrow>
                  (let data = readData w1;
                       newMedia = [(''id'', JNum (now e)), (''title'', title),
                                   (''description'', description), (''url'', JStr fileUrl),
                                   (''type'', JStr (mimetype file)),
                                   (''timestamp'', JStr (iso e))]
                   in case media data of
                        None \<Rightarrow> (res_json 500 [(''error'', JStr ''Failed to upload media'')], w1)
                      | Some ms \<Rightarrow>
                          (res_json 200 newMedia,
                           writeData (data\<lparr>media := Some (ms @ [newMedia])\<rparr>) w1))))"

text \<open>GET /api/activities (lines 681-684).\<close>

definition get_activities :: "world \<Rightarrow> response \<times> world" where
  "get_activities w = (res_json_arr 200 (or_empty (activities (readData w))), w)"

section \<open>News articles\<close>

text \<open>GET /api/news (lines 687-690).\<close>

definition get_news :: "world \<Rightarrow> response \<times> world" where
  "get_news w =
     (case news (readData w) of
        None \<Rightarrow> (\<lparr>status = 200, body = Empty\<rparr>, w)
      | Some ns \<Rightarrow> (res_json_arr 200 ns, w))"

text \<open>
  POST /api/news (lines 692-723): an image URL in the body wins over an attached file,
  which is then not uploaded.
\<close>

definition post_news :: "env \<Rightarrow> request \<Rightarrow> world \<Rightarrow> response \<times> world" where
  "post_news e req w =
     (let title = get (req_body req) ''title'';
          content = get (req_body req) ''content'';
          category = get (req_body req) ''category''
      in case (if truthy (get (req_body req) ''imageUrl'')
               then (Inr (get (req_body req) ''imageUrl''), w)
               else upload_first e (req_files req) ''news'' (JStr []) w) of
           (Inl m, w1) \<Rightarrow> (res_json 500 [(''error'', JStr ''Failed to add news'')], w1)
         | (Inr imageUrl, w1) \<Rightarrow>
             (let data = readData w1;
                  newNews = [(''id'', JNum (now e)), (''title'', title), (''content'', content),
                             (''category'', category), (''imageUrl'', imageUrl),
                             (''timestamp'', JStr (iso e))]
              in case news data of
                   None \<Rightarrow> (res_json 500 [(''error'', JStr ''Failed to add news'')], w1)
                 | Some ns \<Rightarrow>
                     (let w2 = writeData (data\<lparr>news := Some (ns @ [newNews])\<rparr>) w1
                      in case title_snippet title of
                           None \<Rightarrow> (res_json 500 [(''error'', JStr ''Failed to add news'')], w2)
                         | Some t \<Rightarrow>
                             (res_json 200 newNews,
                              snd (logActivity e (JStr ''news'')
                                     (JStr (''New article published: '' @ t))
                                     (JStr ''Admin User'') (JStr ''published'') w2)))))"

text \<open>PUT /api/news/:id (lines 726-759).\<close>

definition put_news :: "env \<Rightarrow> request \<Rightarrow> world \<Rightarrow> response \<times> world" where
  "put_news e req w =
     (let newsId = param_id e req;
          data = readData w
      in case news data of
           None \<Rightarrow> (res_json 500 [(''error'', JStr ''Failed to update news'')], w)
         | Some ns \<Rightarrow>
             (case findIndex (\<lambda>n. strict_eq (get n ''id'') newsId) ns of
                None \<Rightarrow> (res_json 404 [(''error'', JStr ''News not found'')], w)
              | Some idx \<Rightarrow>
                  (let title = get (req_body req) ''title'';
                       content = get (req_body req) ''content'';
                       category = get (req_body req) ''category'';
                       imageUrl = get (req_body req) ''imageUrl'';
                       finalImageUrl = js_or (js_or imageUrl (get (ns ! idx) ''imageUrl'')) (JStr [])
                   in case upload_first e (req_files req) ''news'' finalImageUrl w of
                        (Inl m, w1) \<Rightarrow> (res_json 500 [(''error'', JStr ''Failed to update news'')], w1)
                      | (Inr finalImageUrl, w1) \<Rightarrow>
                          (let updated = spread_set (ns ! idx)
                                 [(''title'', js_or title (get (ns ! idx) ''title'')),
                                  (''content'', js_or content (get (ns ! idx) ''content'')),
                                  (''category'', js_or category (get (ns ! idx) ''category'')),
                                  (''imageUrl'', finalImageUrl),
                                  (''timestamp'', JStr (iso e))];
                               w2 = writeData (data\<lparr>news := Some (ns[idx := updated])\<rparr>) w1
                           in case title_snippet (get updated ''title'') of
                                None \<Rightarrow> (res_json 500 [(''error'', JStr ''Failed to update news'')], w2)
                              | Some t \<Rightarrow>
                                  (res_json 200 updated,
                                   snd (logActivity e (JStr ''news'')
                                          (JStr (''Article updated: '' @ t))
                                          (JStr ''Admin User'') (JStr ''updated'') w2))))))"

text \<open>DELETE /api/news/:id (lines 762-780).\<close>

definition delete_news :: "env \<Rightarrow> request \<Rightarrow> world \<Rightarrow> response \<times> world" where
  "delete_news e req w =
     (let newsId = param_id e req;
          data = readData w
      in case news data of
           None \<Rightarrow> (res_json 500 [(''error'', JStr ''Failed to delete news'')], w)
         | Some ns \<Rightarrow>
             (case findIndex (\<lambda>n. strict_eq (get n ''id'') newsId) ns of
                None \<Rightarrow> (res_json 404 [(''error'', JStr ''News not found'')], w)
              | Some idx \<Rightarrow>
                  (let deletedNews = ns ! idx;
                       w1 = writeData (data\<lparr>news := Some (splice1 idx ns)\<rparr>) w
                   in case title_snippet (get deletedNews ''title'') of
                        None \<Rightarrow> (res_json 500 [(''error'', JStr ''Failed to delete news'')], w1)
                      | Some t \<Rightarrow>
                          (res_json 200 [(''success'', JBool True)],
                           snd (logActivity e (JStr ''news'')
                                  (JStr (''Article deleted: '' @ t))
                                  (JStr ''Admin User'') (JStr ''deleted'') w1)))))"

section \<open>Static pages, tickers, ads, users\<close>

text \<open>POST /api/static-pages (lines 788-801).\<close>

definition post_static_pages :: "env \<Rightarrow> request \<Rightarrow> world \<Rightarrow> response \<times> world" where
  "post_static_pages e req w =
     (let title = get (req_body req) ''title'';
          content = get (req_body req) ''content'';
          slug = get (req_body req) ''slug'';
          data = readData w;
          newPage = [(''id'', JNum (now e)), (''title'', title), (''content'', content),
                     (''slug'', slug), (''timestamp'', JStr (iso e))]
      in case staticPages data of
           None \<Rightarrow> (express_error type_error, w)
         | Some pages \<Rightarrow>
             (res_json 200 newPage, writeData (data\<lparr>staticPages := Some (pages @ [newPage])\<rparr>) w))"

text \<open>POST /api/tickers (lines 809-822).\<close>

definition post_tickers :: "env \<Rightarrow> request \<Rightarrow> world \<Rightarrow> response \<times> world" where
  "post_tickers e req w =
     (let text = get (req_body req) ''text'';
          type = get (req_body req) ''type'';
          data = readData w;
          newTicker = [(''id'', JNum (now e)), (''text'', text), (''type'', type),
                       (''active'', JBool True), (''timestamp'', JStr (iso e))]
      in case tickers data of
           None \<Rightarrow> (express_error type_error, w)
         | Some ts \<Rightarrow>
             (res_json 200 newTicker, writeData (data\<lparr>tickers := Some (ts @ [newTicker])\<rparr>) w))"

text \<open>POST /api/ads (lines 830-857), behind \<open>posterUpload.single('image')\<close>.\<close>

definition post_ads :: "env \<Rightarrow> request \<Rightarrow> world \<Rightarrow> response \<times> world" where
  "post_ads e req w =
     (let title = get (req_body req) ''title'';
          placement = get (req_body req) ''placement'';
          startDate = get (req_body req) ''startDate'';
          endDate = get (req_body req) ''endDate'';
          url = get (req_body req) ''url''
      in case upload_first e (req_files req) ''ads'' (JStr []) w of
           (Inl m, w1) \<Rightarrow> (res_json 500 [(''error'', JStr ''Failed to add advertisement'')], w1)
         | (Inr imageUrl, w1) \<Rightarrow>
             (let data = readData w1;
                  newAd = [(''id'', JNum (now e)), (''title'', title), (''placement'', placement),
                           (''imageUrl'', imageUrl), (''url'', url), (''startDate'', startDate),
                           (''endDate'', endDate), (''active'', JBool True),
                           (''timestamp'', JStr (iso e))]
              in case ads data of
                   None \<Rightarrow> (res_json 500 [(''error'', JStr ''Failed to add advertisement'')], w1)
                 | Some as \<Rightarrow>
                     (res_json 200 newAd, writeData (data\<lparr>ads := Some (as @ [newAd])\<rparr>) w1)))"

text \<open>POST /api/users (lines 865-885).\<close>

definition post_users :: "env \<Rightarrow> request \<Rightarrow> world \<Rightarrow> response \<times> world" where
  "post_users e req w =
     (let username = get (req_body req) ''username'';
          password = get (req_body req) ''password'';
          role = get (req_body req) ''role'';
          email = get (req_body req) ''email'';
          data = readData w
      in case users data of
           None \<Rightarrow> (express_error type_error, w)
         | Some us \<Rightarrow>
             (if list_ex (\<lambda>u. strict_eq (get u ''username'') username) us
              then (res_json 400 [(''error'', JStr ''Username already exists'')], w)
              else
                (let newUser = [(''id'', JNum (now e)), (''username'', username),
                                (''password'', password), (''role'', role), (''email'', email),
                                (''timestamp'', JStr (iso e))]
                 in (res_json 200 (spread_set newUser [(''password'', Undefined)]),
                     writeData (data\<lparr>users := Some (us @ [newUser])\<rparr>) w))))"

section \<open>The application\<close>

text \<open>
  The routes of the application that write the document, and the reads the properties
  below look at, each with the upload middleware it is registered with.
\<close>

datatype route =
    PostLogin | GetPosters | PostPosters
  | GetBreakingNews | PostBreakingNews | PutBreakingNews | DeleteBreakingNews
  | GetFeaturedStories | PostFeaturedStories | PutFeaturedStories | DeleteFeaturedStories
  | PostCategories | PostMedia | GetActivities
  | GetNews | PostNews | PutNews | DeleteNews
  | PostStaticPages | PostTickers | PostAds | PostUsers

fun app :: "env \<Rightarrow> route \<Rightarrow> request \<Rightarrow> world \<Rightarrow> response \<times> world" where
  "app e PostLogin req w = login req w"
| "app e GetPosters req w = get_posters w"
| "app e PostPosters req w =
     with_upload (Some [(''posterImage1'', 1), (''posterImage2'', 1), (''posterImage3'', 1)])
       (posterUpload_fileFilter e) (post_posters e) req w"
| "app e GetBreakingNews req w = get_breaking_news w"
| "app e PostBreakingNews req w =
     with_upload None (breakingNewsUpload_fileFilter e) (post_breaking_news e) req w"
| "app e PutBreakingNews req w =
     with_upload None (breakingNewsUpload_fileFilter e) (put_breaking_news e) req w"
| "app e DeleteBreakingNews req w = delete_breaking_news e req w"
| "app e GetFeaturedStories req w = get_featured_stories w"
| "app e PostFeaturedStories req w =
     with_upload (Some [(''image'', 1)]) (posterUpload_fileFilter e) (post_featured_stories e) req w"
| "app e PutFeaturedStories req w =
     with_upload (Some [(''image'', 1)]) (posterUpload_fileFilter e) (put_featured_stories e) req w"
| "app e DeleteFeaturedStories req w = delete_featured_stories e req w"
| "app e PostCategories req w = post_categories e req w"
| "app e PostMedia req w =
     with_upload (Some [(''file'', 1)]) (posterUpload_fileFilter e) (post_media e) req w"
| "app e GetActivities req w = get_activities w"
| "app e GetNews req w = get_news w"
| "app e PostNews req w =
     with_upload (Some [(''image'', 1)]) (posterUpload_fileFilter e) (post_news e) req w"
| "app e PutNews req w =
     with_upload (Some [(''image'', 1)]) (posterUpload_fileFilter e) (put_news e) req w"
| "app e DeleteNews req w = delete_news e req w"
| "app e PostStaticPages req w = post_static_pages e req w"
| "app e PostTickers req w = post_tickers e req w"
| "app e PostAds req w =
     with_upload (Some [(''image'', 1)]) (posterUpload_fileFilter e) (post_ads e) req w"
| "app e PostUsers req w = post_users e req w"

text \<open>
  The states of the server: it starts without a data file, and every request is served on
  the state the previous one left.
\<close>

definition start :: world where
  "start = \<lparr>datafile = None, cloud_calls = []\<rparr>"

inductive reachable :: "world \<Rightarrow> bool" where
  reachable_start: "reachable start"
| reachable_step: "reachable w \<Longrightarrow> reachable (snd (app e r req w))"

section \<open>Observations used by the properties\<close>

text \<open>The document a request reads, in the form it has in the file.\<close>

definition stored :: "world \<Rightarrow> jobj document" where
  "stored w = map_document stringify (readData w)"

text \<open>The array a GET answers with.\<close>

definition listed :: "response \<times> world \<Rightarrow> jobj list" where
  "listed rw = (case body (fst rw) of Arr xs \<Rightarrow> xs | _ \<Rightarrow> [])"

text \<open>
  A run of \<open>logActivity\<close> calls, one after the other, each on the state the previous one
  left; the activities they return, oldest first.
\<close>

fun logged :: "(env \<times> jval \<times> jval \<times> jval \<times> jval) list \<Rightarrow> world \<Rightarrow> obj list \<times> world" where
  "logged [] w = ([], w)"
| "logged ((e, type, title, user, st) # calls) w =
     (case logActivity e type title user st w of
        (activity, w1) \<Rightarrow> (case logged calls w1 of (acts, w2) \<Rightarrow> (activity # acts, w2)))"

text \<open>
  What one request may do to the posters and to the activity log: it leaves the posters as
  they are, and it leaves the log no longer than it was, or than 50 entries.
\<close>

definition keeps :: "world \<Rightarrow> world \<Rightarrow> bool" where
  "keeps w w' =
     (posters (stored w') = posters (stored w) \<and>
      length (or_empty (activities (stored w'))) \<le> max 50 (length (or_empty (activities (stored w)))))"

text \<open>The stored record \<open>r\<close> carries the id of the request: \<open>r.id === Number(req.params.id)\<close>.\<close>

definition has_id :: "env \<Rightarrow> request \<Rightarrow> jobj \<Rightarrow> bool" where
  "has_id e req r = strict_eq (get (parse r) ''id'') (param_id e req)"

text \<open>The bounds that every state of the server keeps.\<close>

definition within_bounds :: "world \<Rightarrow> bool" where
  "within_bounds w =
     (length (or_empty (posters (stored w))) \<le> 3 \<and>
      length (or_empty (activities (stored w))) \<le> 50)"

text \<open>
  An environment for concrete runs: every upload succeeds, the clock stands still,
  \<open>Number\<close> is given on the two id strings the runs use, and \<open>extname\<close> on plain
  file names, where it is the part from the last dot on.
\<close>

definition env0 :: env where
  "env0 = \<lparr>cloud = (\<lambda>f folder. Inr ''https://cdn.example/x''),
           Number_js = (\<lambda>v. case v of
                              J (JsStr s) \<Rightarrow> (if s = ''7'' then JNum 7
                                              else if s = ''1700000000000'' then JNum 1700000000000
                                              else NaN)
                            | _ \<Rightarrow> v),
           extname = (\<lambda>name. if CHR ''.'' \<in> set name
                            then CHR ''.'' # rev (takeWhile (\<lambda>c. c \<noteq> CHR ''.'') (rev name))
                            else []),
           now = 1700000000000, iso = ''2023-11-14T22:13:20.000Z'',
           now_log = 1700000000001, iso_log = ''2023-11-14T22:13:20.001Z''\<rparr>"

text \<open>The upload gateway raises an error for this file and folder.\<close>

definition upload_fails :: "env \<Rightarrow> upfile \<Rightarrow> string \<Rightarrow> bool" where
  "upload_fails e f folder = (path f = [] \<or> (case cloud e f folder of Inl m \<Rightarrow> True | Inr url \<Rightarrow> False))"

text \<open>
  A request that is aborted: the answer is HTTP 500 and the data file is what it was.
\<close>

definition aborted :: "env \<Rightarrow> route \<Rightarrow> request \<Rightarrow> world \<Rightarrow> bool" where
  "aborted e r req w =
     (status (fst (app e r req w)) = 500 \<and> datafile (snd (app e r req w)) = datafile w)"

text \<open>A data file for concrete runs.\<close>

definition doc0 :: "jobj document" where
  "doc0 =
     \<lparr>posters = Some [[(''id'', JsNum 1), (''title'', JsStr ''Old''), (''image'', JsStr ''http://img/old.png''),
                       (''link'', JsStr ''/old'')],
                      [(''id'', JsNum 2), (''title'', JsStr []), (''image'', JsStr []), (''link'', JsStr [])],
                      [(''id'', JsNum 3), (''title'', JsStr []), (''image'', JsStr []), (''link'', JsStr [])]],
      breakingNews = Some [[(''id'', JsNum 7), (''headline'', JsStr ''H''), (''shortDescription'', JsStr ''S''),
                            (''fullDescription'', JsStr ''F''), (''category'', JsStr ''world''),
                            (''state'', JsStr ''KA''), (''videoUrl'', JsStr []), (''thumbnail'', JsStr []),
                            (''youtubeUrl'', JsStr []), (''timestamp'', JsStr ''t0'')]],
      featuredStories = Some [[(''id'', JsNum 7), (''title'', JsStr ''Old title''),
                               (''description'', JsStr ''D''), (''content'', JsStr ''C''),
                               (''category'', JsStr ''world''), (''state'', JsStr ''KA''),
                               (''excerpt'', JsStr ''E''), (''imageUrl'', JsStr []),
                               (''priority'', JsNum 1), (''views'', JsStr ''0''),
                               (''timestamp'', JsStr ''t0'')]],
      categories = Some [],
      users = Some [[(''id'', JsNum 1), (''username'', JsStr ''admin''), (''password'', JsStr ''secret''),
                     (''role'', JsStr ''admin''), (''email'', JsStr ''a@x''), (''timestamp'', JsStr ''t0'')]],
      media = Some [],
      news = Some [[(''id'', JsNum 7), (''title'', JsStr ''N''), (''content'', JsStr ''c''),
                    (''category'', JsStr ''world''), (''imageUrl'', JsStr []), (''timestamp'', JsStr ''t0'')]],
      staticPages = Some [], tickers = Some [], tools = Some [],
      ads = Some [], activities = None\<rparr>"

text \<open>An environment in which the media host cannot be reached, and files for the upload fields.\<close>

definition env_down :: env where
  "env_down = env0\<lparr>cloud := (\<lambda>f folder. Inl ''connect ETIMEDOUT'')\<rparr>"

definition clip :: upfile where
  "clip = \<lparr>fieldname = ''video'', originalname = ''clip.mp4'', mimetype = ''video/mp4'',
           path = ''uploads/1_clip.mp4''\<rparr>"

definition thumb :: upfile where
  "thumb = \<lparr>fieldname = ''thumbnail'', originalname = ''t.png'', mimetype = ''image/png'',
            path = ''uploads/1_t.png''\<rparr>"

definition banner :: upfile where
  "banner = \<lparr>fieldname = ''posterImage1'', originalname = ''b.png'', mimetype = ''image/png'',
             path = ''uploads/1_b.png''\<rparr>"

definition installer :: upfile where
  "installer = \<lparr>fieldname = ''file'', originalname = ''setup.exe'',
                mimetype = ''application/octet-stream'', path = ''uploads/1_setup.exe''\<rparr>"

text \<open>
  Two files whose extension and declared MIME type are on no allow-list, but contain a
  listed literal.
\<close>

definition pngx :: upfile where
  "pngx = \<lparr>fieldname = ''file'', originalname = ''a.pngx'', mimetype = ''image/png'',
           path = ''uploads/1_a.pngx''\<rparr>"

definition exejpg :: upfile where
  "exejpg = \<lparr>fieldname = ''file'', originalname = ''run.exejpg'',
             mimetype = ''application/x-image/png-not'', path = ''uploads/1_run.exejpg''\<rparr>"

definition photo :: upfile where
  "photo = \<lparr>fieldname = ''image'', originalname = ''p.png'', mimetype = ''image/png'',
            path = ''uploads/1_p.png''\<rparr>"

definition scan :: upfile where
  "scan = \<lparr>fieldname = ''file'', originalname = ''s.png'', mimetype = ''image/png'',
           path = ''uploads/1_s.png''\<rparr>"

definition world0 :: world where
  "world0 = \<lparr>datafile = Some doc0, cloud_calls = []\<rparr>"

text \<open>
  Two breaking-news items created within the same millisecond on a fresh server, and the
  request that deletes by their id.
\<close>

definition flood_post :: request where
  "flood_post = \<lparr>req_body = [(''headline'', JStr ''Flood'')], req_files = [], params_id = []\<rparr>"

definition flood_delete :: request where
  "flood_delete = \<lparr>req_body = [], req_files = [], params_id = ''1700000000000''\<rparr>"

definition twice_posted :: world where
  "twice_posted = snd (app env0 PostBreakingNews flood_post (snd (app env0 PostBreakingNews flood_post start)))"

text \<open>A create request that has a description and no title.\<close>

definition untitled :: request where
  "untitled = \<lparr>req_body = [(''description'', JStr ''No title given'')], req_files = [], params_id = []\<rparr>"

text \<open>
  Requests for the record with id 7: one without a body, one that provides a new title
  and nothing else, one that provides a new headline and nothing else.
\<close>

definition seven :: request where
  "seven = \<lparr>req_body = [], req_files = [], params_id = ''7''\<rparr>"

definition retitle :: request where
  "retitle = \<lparr>req_body = [(''title'', JStr ''New title'')], req_files = [], params_id = ''7''\<rparr>"

definition reheadline :: request where
  "reheadline = \<lparr>req_body = [(''headline'', JStr ''New headline'')], req_files = [], params_id = ''7''\<rparr>"

section \<open>Facts about the store\<close>

lemma stringify_parse [simp]: "stringify (parse r) = r"
  by (induction r) (auto simp: parse_def)

lemma stringify_comp_parse [simp]: "stringify \<circ> parse = id"
  by (rule ext) simp

lemma map_stringify_parse [simp]: "map stringify (map parse xs) = xs"
  by (induction xs) auto

lemma map_option_stringify_parse [simp]:
  "map_option (map stringify) (map_option (map parse) c) = c"
  by (cases c) auto

lemma map_document_sel [simp]:
  "posters (map_document f d) = map_option (map f) (posters d)"
  "breakingNews (map_document f d) = map_option (map f) (breakingNews d)"
  "featuredStories (map_document f d) = map_option (map f) (featuredStories d)"
  "categories (map_document f d) = map_option (map f) (categories d)"
  "users (map_document f d) = map_option (map f) (users d)"
  "media (map_document f d) = map_option (map f) (media d)"
  "news (map_document f d) = map_option (map f) (news d)"
  "staticPages (map_document f d) = map_option (map f) (staticPages d)"
  "tickers (map_document f d) = map_option (map f) (tickers d)"
  "tools (map_document f d) = map_option (map f) (tools d)"
  "ads (map_document f d) = map_option (map f) (ads d)"
  "activities (map_document f d) = map_option (map f) (activities d)"
  by (simp_all add: map_document_def)

lemma map_document_stringify_parse [simp]: "map_document stringify (map_document parse d) = d"
  by (simp add: map_document_def)

lemma datafile_writeData [simp]: "datafile (writeData d w) = Some (map_document stringify d)"
  by (simp add: writeData_def)

lemma cloud_calls_writeData [simp]: "cloud_calls (writeData d w) = cloud_calls w"
  by (simp add: writeData_def)

lemma stored_writeData [simp]: "stored (writeData d w) = map_document stringify d"
  by (simp add: stored_def readData_def)

lemma stored_datafile: "datafile w' = datafile w \<Longrightarrow> stored w' = stored w"
  by (simp add: stored_def readData_def)

lemma readData_stored: "readData w = map_document parse (stored w)"
  by (cases "datafile w") (simp_all add: stored_def readData_def map_document_def)

lemma or_empty_map_option [simp]: "or_empty (map_option (map f) c) = map f (or_empty c)"
  by (cases c) (simp_all add: or_empty_def)

lemma uploadToCloudinary_datafile:
  "uploadToCloudinary e f folder w = (r, w') \<Longrightarrow> datafile w' = datafile w"
  by (auto simp: uploadToCloudinary_def Let_def split: if_splits sum.splits)

lemma upload_first_datafile:
  "upload_first e fs folder prev w = (r, w') \<Longrightarrow> datafile w' = datafile w"
  by (auto simp: upload_first_def split: list.splits prod.splits sum.splits
           dest: uploadToCloudinary_datafile)

lemma upload_first_stored:
  "upload_first e fs folder prev w = (r, w') \<Longrightarrow> stored w' = stored w"
  by (rule stored_datafile) (rule upload_first_datafile)

section \<open>Facts about the activity log\<close>

lemma map_document_activities_update [simp]:
  "map_document f (d\<lparr>activities := v\<rparr>) = (map_document f d)\<lparr>activities := map_option (map f) v\<rparr>"
  by (simp add: map_document_def)

lemma stored_logActivity:
  "stored (snd (logActivity e ty ti u st w)) =
     (stored w)\<lparr>activities :=
        Some (take 50 (stringify (fst (logActivity e ty ti u st w)) # or_empty (activities (stored w))))\<rparr>"
  by (simp add: logActivity_def Let_def readData_stored take_map stored_def[symmetric])

lemma listed_get_activities: "listed (get_activities w) = or_empty (activities (stored w))"
  by (simp add: listed_def get_activities_def res_json_arr_def readData_stored)

lemma logActivity_listed:
  "listed (get_activities (snd (logActivity e ty ti u st w))) =
     take 50 (stringify (fst (logActivity e ty ti u st w)) # listed (get_activities w))"
  by (simp add: listed_get_activities stored_logActivity or_empty_def)

lemma take_append_take: "take n (xs @ take n ys) = take n (xs @ ys)"
  by (simp add: min_def)

lemma logged_Cons:
  "fst (logged ((e, ty, ti, u, st) # calls) w) =
     fst (logActivity e ty ti u st w) # fst (logged calls (snd (logActivity e ty ti u st w)))"
  "snd (logged ((e, ty, ti, u, st) # calls) w) = snd (logged calls (snd (logActivity e ty ti u st w)))"
  by (simp_all split: prod.splits)

lemma logged_listed:
  "listed (get_activities (snd (logged calls w))) =
     (if calls = [] then listed (get_activities w)
      else take 50 (map stringify (rev (fst (logged calls w))) @ listed (get_activities w)))"
proof (induction calls arbitrary: w)
  case Nil
  show ?case by simp
next
  case (Cons c calls)
  obtain e ty ti u st where c: "c = (e, ty, ti, u, st)"
    by (cases c) auto
  let ?w1 = "snd (logActivity e ty ti u st w)"
  let ?a = "fst (logActivity e ty ti u st w)"
  have step: "listed (get_activities ?w1) = take 50 (stringify ?a # listed (get_activities w))"
    by (rule logActivity_listed)
  show ?case
  proof (cases "calls = []")
    case True
    then show ?thesis by (simp add: c logged_Cons step del: logged.simps(2))
  next
    case False
    have "listed (get_activities (snd (logged (c # calls) w))) =
            take 50 (map stringify (rev (fst (logged calls ?w1))) @ listed (get_activities ?w1))"
      using False by (simp add: c logged_Cons Cons.IH del: logged.simps(2))
    also have "\<dots> = take 50 (map stringify (rev (fst (logged calls ?w1))) @ stringify ?a # listed (get_activities w))"
      by (simp only: step take_append_take)
    finally show ?thesis by (simp add: c logged_Cons del: logged.simps(2))
  qed
qed

lemma length_fst_logged: "length (fst (logged calls w)) = length calls"
proof (induction calls arbitrary: w)
  case Nil
  show ?case by simp
next
  case (Cons c calls)
  obtain e ty ti u st where c: "c = (e, ty, ti, u, st)"
    by (cases c) auto
  show ?case
    by (simp add: c logged_Cons Cons.IH del: logged.simps(2))
qed

lemma logged_60:
  assumes "length calls = 60"
  shows "listed (get_activities (snd (logged calls w))) = map stringify (take 50 (rev (fst (logged calls w))))"
proof -
  have "calls \<noteq> []" using assms by auto
  then show ?thesis
    by (simp add: logged_listed take_map length_fst_logged assms)
qed

section \<open>What a request keeps\<close>

lemma or_empty_simps [simp]: "or_empty None = []" "or_empty (Some xs) = xs"
  by (simp_all add: or_empty_def)

lemma keeps_login: "keeps w (snd (login req w))"
  by (auto simp: keeps_def login_def Let_def split: option.splits)

lemma keeps_get: "keeps w (snd (get_posters w))" "keeps w (snd (get_breaking_news w))"
  "keeps w (snd (get_featured_stories w))" "keeps w (snd (get_activities w))" "keeps w (snd (get_news w))"
  by (auto simp: keeps_def get_posters_def get_breaking_news_def get_featured_stories_def
      get_activities_def get_news_def Let_def split: option.splits)

lemma keeps_post_breaking_news: "keeps w (snd (post_breaking_news e req w))"
  by (auto simp: keeps_def post_breaking_news_def Let_def readData_stored
      split: option.splits prod.splits sum.splits split del: if_split dest!: upload_first_stored)

lemma keeps_put_breaking_news: "keeps w (snd (put_breaking_news e req w))"
  by (auto simp: keeps_def put_breaking_news_def Let_def readData_stored
      split: option.splits prod.splits sum.splits split del: if_split dest!: upload_first_stored)

lemma keeps_delete_breaking_news: "keeps w (snd (delete_breaking_news e req w))"
  by (auto simp: keeps_def delete_breaking_news_def Let_def readData_stored
      split: option.splits prod.splits sum.splits split del: if_split)

lemma keeps_post_featured_stories: "keeps w (snd (post_featured_stories e req w))"
  by (auto simp: keeps_def post_featured_stories_def Let_def readData_stored stored_logActivity
      split: option.splits prod.splits sum.splits split del: if_split dest!: upload_first_stored)

lemma keeps_put_featured_stories: "keeps w (snd (put_featured_stories e req w))"
  by (auto simp: keeps_def put_featured_stories_def Let_def readData_stored stored_logActivity
      split: option.splits prod.splits sum.splits split del: if_split dest!: upload_first_stored)

lemma keeps_delete_featured_stories: "keeps w (snd (delete_featured_stories e req w))"
  by (auto simp: keeps_def delete_featured_stories_def Let_def readData_stored stored_logActivity
      split: option.splits prod.splits sum.splits split del: if_split)


lemma keeps_post_categories: "keeps w (snd (post_categories e req w))"
  by (auto simp: keeps_def post_categories_def Let_def readData_stored split: option.splits)

lemma keeps_post_media: "keeps w (snd (post_media e req w))"
  by (auto simp: keeps_def post_media_def Let_def readData_stored
      split: option.splits prod.splits sum.splits list.splits
      dest!: uploadToCloudinary_datafile[THEN stored_datafile])

lemma keeps_post_news: "keeps w (snd (post_news e req w))"
  by (auto simp: keeps_def post_news_def Let_def readData_stored stored_logActivity
      split: option.splits prod.splits sum.splits if_splits dest!: upload_first_stored)

lemma keeps_put_news: "keeps w (snd (put_news e req w))"
  by (auto simp: keeps_def put_news_def Let_def readData_stored stored_logActivity
      split: option.splits prod.splits sum.splits split del: if_split dest!: upload_first_stored)

lemma keeps_delete_news: "keeps w (snd (delete_news e req w))"
  by (auto simp: keeps_def delete_news_def Let_def readData_stored stored_logActivity
      split: option.splits prod.splits sum.splits split del: if_split)

lemma keeps_post_static_pages: "keeps w (snd (post_static_pages e req w))"
  by (auto simp: keeps_def post_static_pages_def Let_def readData_stored split: option.splits)

lemma keeps_post_tickers: "keeps w (snd (post_tickers e req w))"
  by (auto simp: keeps_def post_tickers_def Let_def readData_stored split: option.splits)

lemma keeps_post_ads: "keeps w (snd (post_ads e req w))"
  by (auto simp: keeps_def post_ads_def Let_def readData_stored
      split: option.splits prod.splits sum.splits dest!: upload_first_stored)

lemma keeps_post_users: "keeps w (snd (post_users e req w))"
  by (auto simp: keeps_def post_users_def Let_def readData_stored split: option.splits)

lemma poster_slots_result:
  "poster_slots e req slots ps w = (r, w') \<Longrightarrow>
     stored w' = stored w \<and> (\<forall>ps'. r = Inr ps' \<longrightarrow> length ps' = length ps + length slots)"
proof (induction slots arbitrary: ps w)
  case Nil
  then show ?case by auto
next
  case (Cons i rest)
  show ?case
  proof (cases "upload_first e (files_by_field req (''posterImage'' @ digit i)) ''posters''
                  (get (req_body req) (''poster'' @ digit i @ ''ImageUrl'')) w")
    case (Pair u w1)
    have s1: "stored w1 = stored w" using Pair by (rule upload_first_stored)
    show ?thesis
    proof (cases u)
      case (Inl m)
      with Cons.prems Pair s1 show ?thesis by (auto simp: Let_def)
    next
      case (Inr url)
      with Cons.prems Pair have "poster_slots e req rest
               (ps @ [[(''id'', JNum (int i)),
                       (''title'', js_or (get (req_body req) (''poster'' @ digit i @ ''Title'')) (JStr [])),
                       (''image'', js_or url (JStr [])),
                       (''link'', js_or (get (req_body req) (''poster'' @ digit i @ ''Link'')) (JStr []))]]) w1 = (r, w')"
        by (simp add: Let_def)
      from Cons.IH[OF this] s1 show ?thesis by auto
    qed
  qed
qed

lemma post_posters_step:
  "(posters (stored (snd (post_posters e req w))) = posters (stored w) \<or>
    length (or_empty (posters (stored (snd (post_posters e req w))))) = 3) \<and>
   activities (stored (snd (post_posters e req w))) = activities (stored w)"
proof (cases "poster_slots e req [1, 2, 3] [] w")
  case (Pair r w')
  from poster_slots_result[OF Pair] have s: "stored w' = stored w"
    and len: "\<And>ps'. r = Inr ps' \<Longrightarrow> length ps' = 3" by auto
  show ?thesis
  proof (cases r)
    case (Inl m)
    then show ?thesis using Pair s by (simp add: post_posters_def)
  next
    case (Inr ps')
    then show ?thesis using Pair len[OF Inr] by (simp add: post_posters_def readData_stored)
  qed
qed

lemma within_bounds_keeps: "within_bounds w \<Longrightarrow> keeps w w' \<Longrightarrow> within_bounds w'"
  by (auto simp: within_bounds_def keeps_def)

lemma keeps_refl: "keeps w w"
  by (simp add: keeps_def)

lemma within_bounds_with_upload:
  "within_bounds w \<Longrightarrow> (\<And>req'. within_bounds (snd (h req' w))) \<Longrightarrow> within_bounds (snd (with_upload lim flt h req w))"
  by (auto simp: with_upload_def express_error_def split: sum.splits)

lemma keeps_with_upload:
  "(\<And>req'. keeps w (snd (h req' w))) \<Longrightarrow> keeps w (snd (with_upload lim flt h req w))"
  by (auto simp: with_upload_def express_error_def keeps_refl split: sum.splits)

lemma keeps_app: "r \<noteq> PostPosters \<Longrightarrow> keeps w (snd (app e r req w))"
  by (cases r)
     (simp_all add: keeps_with_upload keeps_login keeps_get keeps_post_breaking_news
        keeps_put_breaking_news keeps_delete_breaking_news keeps_post_featured_stories
        keeps_put_featured_stories keeps_delete_featured_stories keeps_post_categories
        keeps_post_media keeps_post_news keeps_put_news keeps_delete_news
        keeps_post_static_pages keeps_post_tickers keeps_post_ads keeps_post_users)

lemma within_bounds_app:
  assumes i: "within_bounds w"
  shows "within_bounds (snd (app e r req w))"
proof (cases "r = PostPosters")
  case True
  have "within_bounds (snd (post_posters e req' w))" for req'
    using i post_posters_step[of e req' w] unfolding within_bounds_def
    by (elim conjE disjE) simp_all
  with i show ?thesis by (simp add: True within_bounds_with_upload)
next
  case False
  then show ?thesis using i keeps_app within_bounds_keeps by blast
qed

lemma within_bounds_start: "within_bounds start"
  by (simp add: within_bounds_def start_def stored_def readData_def)

lemma reachable_within_bounds: "reachable w \<Longrightarrow> within_bounds w"
  by (induction rule: reachable.induct) (simp_all add: within_bounds_start within_bounds_app)

lemma fst_logActivity:
  "fst (logActivity e ty ti u st w) =
     [(''id'', JNum (now_log e)), (''type'', ty), (''title'', ti),
      (''user'', if u = Undefined then JStr ''Admin User'' else u),
      (''status'', if st = Undefined then JStr ''completed'' else st),
      (''timestamp'', JStr (iso_log e))]"
  by (simp add: logActivity_def Let_def)

lemma datafile_logActivity:
  "datafile (snd (logActivity e ty ti u st w)) =
     Some ((stored w)\<lparr>activities :=
        Some (take 50 (stringify (fst (logActivity e ty ti u st w)) # or_empty (activities (stored w))))\<rparr>)"
  by (simp add: logActivity_def Let_def readData_stored take_map stored_def[symmetric])

section \<open>Facts about the posters\<close>

declare pad_posters.simps [simp del]


lemma upload_first_Nil [simp]: "upload_first e [] folder prev w = (Inr prev, w)"
  by (simp add: upload_first_def)


lemma digit_simps [simp]: "digit 1 = ''1''" "digit 2 = ''2''" "digit 3 = ''3''"
    "digit (Suc 0) = ''1''"
  by code_simp+





lemma multer_Inr: "multer lim flt fs = Inr acc \<Longrightarrow> acc = fs"
proof (induction fs arbitrary: lim acc)
  case Nil
  then show ?case by simp
next
  case (Cons f fs)
  show ?case
  proof (cases lim)
    case None
    with Cons.prems Cons.IH[of None] show ?thesis
      by (auto split: sum.splits)
  next
    case (Some left)
    with Cons.prems show ?thesis
      by (auto split: sum.splits option.splits nat.splits dest: Cons.IH)
  qed
qed

lemma with_upload_cases:
  "(\<exists>m. multer lim flt (req_files req) = Inl m \<and> with_upload lim flt h req w = (express_error m, w))
   \<or> (multer lim flt (req_files req) = Inr (req_files req) \<and> with_upload lim flt h req w = h req w)"
proof (cases "multer lim flt (req_files req)")
  case (Inl m)
  then show ?thesis by (simp add: with_upload_def)
next
  case (Inr fs)
  then have "fs = req_files req" by (rule multer_Inr)
  with Inr show ?thesis by (simp add: with_upload_def)
qed


section \<open>Failed uploads\<close>

lemma upload_fails_first:
  assumes "upload_fails e f folder"
  shows "\<exists>m w'. upload_first e (f # rest) folder prev w = (Inl m, w') \<and> datafile w' = datafile w"
  using assms
  by (auto simp: upload_fails_def upload_first_def uploadToCloudinary_def Let_def split: sum.splits)

lemma upload_fails_cloudinary:
  assumes "upload_fails e f folder"
  shows "\<exists>m w'. uploadToCloudinary e f folder w = (Inl m, w') \<and> datafile w' = datafile w"
  using assms
  by (auto simp: upload_fails_def uploadToCloudinary_def Let_def split: sum.splits)

lemma status_res_json [simp]: "status (res_json st ob) = st"
  by (simp add: res_json_def)

lemma status_express_error [simp]: "status (express_error m) = 500"
  by (simp add: express_error_def)

lemma with_upload_500:
  assumes "status (fst (h req w)) = 500 \<and> datafile (snd (h req w)) = datafile w"
  shows "status (fst (with_upload lim flt h req w)) = 500 \<and>
         datafile (snd (with_upload lim flt h req w)) = datafile w"
  using with_upload_cases[of lim flt req h w] assms by auto

lemma post_breaking_news_video_fails:
  assumes "files_by_field req ''video'' = f # rest" "upload_fails e f ''breaking-news''"
  shows "status (fst (post_breaking_news e req w)) = 500 \<and>
         datafile (snd (post_breaking_news e req w)) = datafile w"
proof -
  from upload_fails_first[OF assms(2)] obtain m w' where
    "upload_first e (f # rest) ''breaking-news'' (JStr []) w = (Inl m, w')" "datafile w' = datafile w"
    by blast
  then show ?thesis
    by (simp add: post_breaking_news_def assms(1))
qed

lemma post_breaking_news_thumbnail_fails:
  assumes "files_by_field req ''thumbnail'' = f # rest" "upload_fails e f ''breaking-news-thumbnails''"
  shows "status (fst (post_breaking_news e req w)) = 500 \<and>
         datafile (snd (post_breaking_news e req w)) = datafile w"
proof (cases "upload_first e (files_by_field req ''video'') ''breaking-news'' (JStr []) w")
  case (Pair r w1)
  then have d1: "datafile w1 = datafile w" by (rule upload_first_datafile)
  show ?thesis
  proof (cases r)
    case (Inl m)
    with Pair d1 show ?thesis by (simp add: post_breaking_news_def)
  next
    case (Inr v)
    from upload_fails_first[OF assms(2)] obtain m w' where
      "upload_first e (f # rest) ''breaking-news-thumbnails'' (JStr []) w1 = (Inl m, w')"
      "datafile w' = datafile w1"
      by blast
    with Pair Inr d1 show ?thesis by (simp add: post_breaking_news_def assms(1))
  qed
qed

lemma post_featured_stories_fails:
  assumes "req_files req = f # rest" "upload_fails e f ''featured-stories''"
  shows "status (fst (post_featured_stories e req w)) = 500 \<and>
         datafile (snd (post_featured_stories e req w)) = datafile w"
proof -
  from upload_fails_first[OF assms(2)] obtain m w' where
    "upload_first e (f # rest) ''featured-stories'' (JStr []) w = (Inl m, w')" "datafile w' = datafile w"
    by blast
  then show ?thesis
    by (simp add: post_featured_stories_def assms(1))
qed

lemma post_media_fails:
  assumes "req_files req = f # rest" "upload_fails e f ''media''"
  shows "status (fst (post_media e req w)) = 500 \<and> datafile (snd (post_media e req w)) = datafile w"
proof -
  from upload_fails_cloudinary[OF assms(2)] obtain m w' where
    "uploadToCloudinary e f ''media'' w = (Inl m, w')" "datafile w' = datafile w"
    by blast
  then show ?thesis
    by (simp add: post_media_def assms(1))
qed

lemma post_news_fails:
  assumes "req_files req = f # rest" "upload_fails e f ''news''" "\<not> truthy (get (req_body req) ''imageUrl'')"
  shows "status (fst (post_news e req w)) = 500 \<and> datafile (snd (post_news e req w)) = datafile w"
proof -
  from upload_fails_first[OF assms(2)] obtain m w' where
    "upload_first e (f # rest) ''news'' (JStr []) w = (Inl m, w')" "datafile w' = datafile w"
    by blast
  then show ?thesis
    by (simp add: post_news_def assms(1) assms(3))
qed

lemma post_ads_fails:
  assumes "req_files req = f # rest" "upload_fails e f ''ads''"
  shows "status (fst (post_ads e req w)) = 500 \<and> datafile (snd (post_ads e req w)) = datafile w"
proof -
  from upload_fails_first[OF assms(2)] obtain m w' where
    "upload_first e (f # rest) ''ads'' (JStr []) w = (Inl m, w')" "datafile w' = datafile w"
    by blast
  then show ?thesis
    by (simp add: post_ads_def assms(1))
qed

lemma poster_slots_fails:
  assumes "k \<in> set slots" "files_by_field req (''posterImage'' @ digit k) = f # rest"
    "upload_fails e f ''posters''"
  shows "\<exists>m w'. poster_slots e req slots ps w = (Inl m, w') \<and> datafile w' = datafile w"
  using assms(1)
proof (induction slots arbitrary: ps w)
  case Nil
  then show ?case by simp
next
  case (Cons i slots)
  show ?case
  proof (cases "upload_first e (files_by_field req (''posterImage'' @ digit i)) ''posters''
                  (get (req_body req) (''poster'' @ digit i @ ''ImageUrl'')) w")
    case (Pair r w1)
    then have d1: "datafile w1 = datafile w" by (rule upload_first_datafile)
    show ?thesis
    proof (cases r)
      case (Inl m)
      with Pair d1 show ?thesis by (simp add: Let_def)
    next
      case (Inr u)
      have "k \<noteq> i"
      proof
        assume "k = i"
        with upload_fails_first[OF assms(3), of rest "get (req_body req) (''poster'' @ digit i @ ''ImageUrl'')" w]
          assms(2) Pair Inr show False by auto
      qed
      with Cons.prems have "k \<in> set slots" by simp
      from Cons.IH[OF this] obtain m w' where
        "poster_slots e req slots
           (ps @ [[(''id'', JNum (int i)),
                   (''title'', js_or (get (req_body req) (''poster'' @ digit i @ ''Title'')) (JStr [])),
                   (''image'', js_or u (JStr [])),
                   (''link'', js_or (get (req_body req) (''poster'' @ digit i @ ''Link'')) (JStr []))]]) w1
         = (Inl m, w')" "datafile w' = datafile w1"
        by blast
      with d1 Pair Inr show ?thesis
        by (simp add: Let_def)
    qed
  qed
qed

lemma post_posters_fails:
  assumes "k \<in> {1, 2, 3}" "files_by_field req (''posterImage'' @ digit k) = f # rest"
    "upload_fails e f ''posters''"
  shows "status (fst (post_posters e req w)) = 500 \<and> datafile (snd (post_posters e req w)) = datafile w"
proof -
  have "k \<in> set [1, 2, 3]" using assms(1) by simp
  from poster_slots_fails[OF this assms(2,3)] obtain m w' where
    "poster_slots e req [1, 2, 3] [] w = (Inl m, w')" "datafile w' = datafile w"
    by blast
  then show ?thesis by (simp add: post_posters_def)
qed

lemma readData_datafile: "datafile w' = datafile w \<Longrightarrow> readData w' = readData w"
  by (simp add: readData_def)

section \<open>Rejected files\<close>

lemma multer_rejects:
  "f \<in> set fs \<Longrightarrow> flt f = Inl m \<Longrightarrow> \<exists>m'. multer lim flt fs = Inl m'"
proof (induction fs arbitrary: lim)
  case Nil
  then show ?case by simp
next
  case (Cons g fs)
  show ?case
  proof (cases "g = f")
    case True
    with Cons.prems show ?thesis
      by (cases lim) (auto split: option.splits nat.splits)
  next
    case False
    with Cons.prems have "f \<in> set fs" by simp
    have ih: "\<exists>m'. multer lim' flt fs = Inl m'" for lim'
      using Cons.IH[of lim'] \<open>f \<in> set fs\<close> Cons.prems(2) by blast
    show ?thesis
    proof (cases lim)
      case None
      with ih[of None] show ?thesis by (auto split: sum.splits)
    next
      case (Some left)
      show ?thesis
      proof (cases "map_of left (fieldname g)")
        case None
        with Some show ?thesis by simp
      next
        case (Some n)
        note n = Some
        show ?thesis
        proof (cases n)
          case 0
          with n \<open>lim = Some left\<close> show ?thesis by simp
        next
          case (Suc n')
          with n \<open>lim = Some left\<close> ih[of "Some (AList.update (fieldname g) n' left)"]
          show ?thesis by (auto split: sum.splits)
        qed
      qed
    qed
  qed
qed

lemma with_upload_rejects:
  assumes "f \<in> set (req_files req)" "flt f = Inl m"
  shows "snd (with_upload lim flt h req w) = w \<and> status (fst (with_upload lim flt h req w)) = 500"
proof -
  from multer_rejects[of f "req_files req" flt m lim] assms
  obtain m' where "multer lim flt (req_files req) = Inl m'"
    by blast
  then show ?thesis by (simp add: with_upload_def)
qed

section \<open>Facts about records\<close>

lemma keys_stringify: "fst ` set (stringify ob) \<subseteq> fst ` set ob"
  by (induction ob rule: stringify.induct) auto

lemma filter_absent_key: "k \<notin> fst ` set xs \<Longrightarrow> filter (\<lambda>p. fst p \<noteq> k) xs = xs"
  by (induction xs) auto

lemma stringify_update_Undefined:
  "distinct (map fst ob) \<Longrightarrow>
     stringify (AList.update k Undefined ob) = filter (\<lambda>p. fst p \<noteq> k) (stringify ob)"
proof (induction ob rule: stringify.induct)
  case 1
  show ?case by simp
next
  case (2 k' ps)
  then have "k' = k \<Longrightarrow> k \<notin> fst ` set (stringify ps)"
    using keys_stringify[of ps] by auto
  with 2 show ?case by (auto simp: filter_absent_key)
next
  case (3 k' ps)
  then have "k' = k \<Longrightarrow> k \<notin> fst ` set (stringify ps)"
    using keys_stringify[of ps] by auto
  with 3 show ?case by (auto simp: filter_absent_key)
next
  case (4 k' v ps)
  then have "k' = k \<Longrightarrow> k \<notin> fst ` set (stringify ps)"
    using keys_stringify[of ps] by auto
  with 4 show ?case by (auto simp: filter_absent_key)
qed

lemma distinct_parse [simp]: "map fst (parse r) = map fst r"
  by (simp add: parse_def comp_def case_prod_beta)

lemma find_map: "find P (map f xs) = map_option f (find (P \<circ> f) xs)"
  by (induction xs) auto

section \<open>Facts about creating records\<close>

lemma listed_get_breaking_news: "listed (get_breaking_news w) = or_empty (breakingNews (stored w))"
  by (cases "breakingNews (stored w)")
     (simp_all add: listed_def get_breaking_news_def res_json_arr_def readData_stored)

lemma listed_get_featured_stories:
  "listed (get_featured_stories w) = or_empty (featuredStories (stored w))"
  by (simp add: listed_def get_featured_stories_def res_json_arr_def readData_stored)

lemma map_document_updates [simp]:
  "map_document f (d\<lparr>breakingNews := v\<rparr>) = (map_document f d)\<lparr>breakingNews := map_option (map f) v\<rparr>"
  "map_document f (d\<lparr>featuredStories := v\<rparr>) = (map_document f d)\<lparr>featuredStories := map_option (map f) v\<rparr>"
  "map_document f (d\<lparr>news := v\<rparr>) = (map_document f d)\<lparr>news := map_option (map f) v\<rparr>"
  by (simp_all add: map_document_def)

lemma post_breaking_news_ok:
  assumes "status (fst (post_breaking_news e req w)) = 200"
  shows "\<exists>videoUrl thumbnailUrl.
     body (fst (post_breaking_news e req w)) =
       Obj (stringify [(''id'', JNum (now e)),
                       (''headline'', get (req_body req) ''headline''),
                       (''shortDescription'', get (req_body req) ''shortDescription''),
                       (''fullDescription'', get (req_body req) ''fullDescription''),
                       (''category'', get (req_body req) ''category''),
                       (''state'', get (req_body req) ''state''),
                       (''videoUrl'', videoUrl),
                       (''thumbnail'', js_or thumbnailUrl (JStr [])),
                       (''youtubeUrl'', js_or (get (req_body req) ''youtubeUrl'') (JStr [])),
                       (''timestamp'', JStr (iso e))])
     \<and> (\<forall>rec. body (fst (post_breaking_news e req w)) = Obj rec \<longrightarrow>
           listed (get_breaking_news (snd (post_breaking_news e req w))) =
             rec # listed (get_breaking_news w))
     \<and> (files_by_field req ''video'' = [] \<longrightarrow> videoUrl = JStr [])
     \<and> (files_by_field req ''thumbnail'' = [] \<longrightarrow> thumbnailUrl = JStr [])"
proof (cases "upload_first e (files_by_field req ''video'') ''breaking-news'' (JStr []) w")
  case (Pair r1 w1)
  note p1 = Pair
  have d1: "stored w1 = stored w" using p1 by (rule upload_first_stored)
  show ?thesis
  proof (cases r1)
    case (Inl m)
    with p1 assms show ?thesis by (simp add: post_breaking_news_def)
  next
    case (Inr videoUrl)
    note r1 = Inr
    show ?thesis
    proof (cases "upload_first e (files_by_field req ''thumbnail'') ''breaking-news-thumbnails'' (JStr []) w1")
      case (Pair r2 w2)
      note p2 = Pair
      have d2: "stored w2 = stored w" using p2 d1 by (simp add: upload_first_stored)
      show ?thesis
      proof (cases r2)
        case (Inl m)
        with p1 r1 p2 assms show ?thesis by (simp add: post_breaking_news_def)
      next
        case (Inr thumbnailUrl)
        note r2 = Inr
        show ?thesis
        proof (cases "breakingNews (stored w)")
          case None
          with p1 r1 p2 r2 assms show ?thesis
            by (simp add: post_breaking_news_def Let_def readData_stored)
        next
          case (Some rs)
          have v: "files_by_field req ''video'' = [] \<longrightarrow> videoUrl = JStr []"
            using p1 r1 by auto
          have t: "files_by_field req ''thumbnail'' = [] \<longrightarrow> thumbnailUrl = JStr []"
            using p2 r2 by auto
          show ?thesis
            using v t Some p1 r1 p2 r2
            by (intro exI[of _ videoUrl] exI[of _ thumbnailUrl])
               (simp add: post_breaking_news_def Let_def readData_stored res_json_def
                  listed_get_breaking_news)
        qed
      qed
    qed
  qed
qed


lemma post_featured_stories_ok:
  assumes "status (fst (post_featured_stories e req w)) = 201"
  shows "\<exists>imageUrl.
     body (fst (post_featured_stories e req w)) =
       Obj (stringify [(''id'', JNum (now e)),
                       (''title'', get (req_body req) ''title''),
                       (''description'', get (req_body req) ''description''),
                       (''content'', js_or (get (req_body req) ''content'') (get (req_body req) ''description'')),
                       (''category'', get (req_body req) ''category''),
                       (''state'', get (req_body req) ''state''),
                       (''excerpt'', js_or (get (req_body req) ''excerpt'') (get (req_body req) ''description'')),
                       (''imageUrl'', imageUrl),
                       (''priority'', if truthy (get (req_body req) ''priority'')
                                      then Number_js e (get (req_body req) ''priority'') else JNum 1),
                       (''views'', JStr ''0''),
                       (''timestamp'', JStr (iso e))])
     \<and> (\<forall>rec. body (fst (post_featured_stories e req w)) = Obj rec \<longrightarrow>
           listed (get_featured_stories (snd (post_featured_stories e req w))) =
             listed (get_featured_stories w) @ [rec])
     \<and> (req_files req = [] \<longrightarrow> imageUrl = JStr [])"
proof (cases "upload_first e (req_files req) ''featured-stories'' (JStr []) w")
  case (Pair r1 w1)
  note p1 = Pair
  have d1: "stored w1 = stored w" using p1 by (rule upload_first_stored)
  show ?thesis
  proof (cases r1)
    case (Inl m)
    with p1 assms show ?thesis by (simp add: post_featured_stories_def)
  next
    case (Inr imageUrl)
    note r1 = Inr
    show ?thesis
    proof (cases "title_snippet (get (req_body req) ''title'')")
      case None
      with p1 r1 assms show ?thesis
        by (simp add: post_featured_stories_def Let_def)
    next
      case (Some t)
      have v: "req_files req = [] \<longrightarrow> imageUrl = JStr []"
        using p1 r1 by auto
      show ?thesis
        using v Some p1 r1 d1
        by (intro exI[of _ imageUrl])
           (simp add: post_featured_stories_def Let_def readData_stored res_json_def
              listed_get_featured_stories stored_logActivity split del: if_split)
    qed
  qed
qed

section \<open>Facts about looking up and removing records\<close>

lemma findIndex_None: "findIndex P xs = None \<longleftrightarrow> (\<forall>x \<in> set xs. \<not> P x)"
  by (induction xs) (auto split: option.splits)

lemma findIndex_Some:
  "findIndex P xs = Some i \<Longrightarrow> i < length xs \<and> P (xs ! i) \<and> (\<forall>j < i. \<not> P (xs ! j))"
proof (induction xs arbitrary: i)
  case Nil
  then show ?case by simp
next
  case (Cons x xs)
  show ?case
  proof (cases "P x")
    case True
    with Cons.prems show ?thesis by simp
  next
    case False
    with Cons.prems obtain i' where i': "findIndex P xs = Some i'" "i = Suc i'"
      by (auto split: option.splits)
    from Cons.IH[OF i'(1)] False i'(2) show ?thesis
      by (auto simp: less_Suc_eq_0_disj)
  qed
qed

lemma findIndex_map: "findIndex P (map f xs) = findIndex (P \<circ> f) xs"
  by (induction xs) auto

lemma splice1_map: "map f (splice1 i xs) = splice1 i (map f xs)"
  by (simp add: splice1_def take_map drop_map)

lemma splice1_first_only:
  "findIndex P xs = Some i \<Longrightarrow> length (filter P xs) = 1 \<Longrightarrow> \<forall>x \<in> set (splice1 i xs). \<not> P x"
proof (induction xs arbitrary: i)
  case Nil
  then show ?case by simp
next
  case (Cons x xs)
  show ?case
  proof (cases "P x")
    case True
    with Cons.prems have "i = 0" "filter P xs = []" by auto
    then show ?thesis by (auto simp: splice1_def filter_empty_conv)
  next
    case False
    with Cons.prems obtain i' where i': "findIndex P xs = Some i'" "i = Suc i'"
      by (auto split: option.splits)
    from Cons.prems(2) False have "length (filter P xs) = 1" by simp
    from Cons.IH[OF i'(1) this] False i'(2) show ?thesis
      by (auto simp: splice1_def)
  qed
qed

lemma splice1_length: "i < length xs \<Longrightarrow> length (splice1 i xs) = length xs - 1"
  by (simp add: splice1_def)

lemma findIndex_has_id:
  "findIndex (\<lambda>b. strict_eq (get b ''id'') (param_id e req)) (map parse rs) = findIndex (has_id e req) rs"
  by (simp add: findIndex_map comp_def has_id_def[abs_def])

lemma listed_get_news: "listed (get_news w) = or_empty (news (stored w))"
  by (cases "news (stored w)")
     (simp_all add: listed_def get_news_def res_json_arr_def readData_stored)

lemma put_breaking_news_404:
  assumes "breakingNews (stored w) = Some rs" "findIndex (has_id e req) rs = None"
  shows "put_breaking_news e req w = (res_json 404 [(''error'', JStr ''Breaking news not found'')], w)"
  using assms by (simp add: put_breaking_news_def Let_def readData_stored findIndex_has_id)

lemma delete_breaking_news_404:
  assumes "breakingNews (stored w) = Some rs" "findIndex (has_id e req) rs = None"
  shows "delete_breaking_news e req w = (res_json 404 [(''error'', JStr ''Breaking news not found'')], w)"
  using assms by (simp add: delete_breaking_news_def Let_def readData_stored findIndex_has_id)

lemma delete_breaking_news_200:
  assumes "status (fst (delete_breaking_news e req w)) = 200"
  shows "\<exists>rs idx. breakingNews (stored w) = Some rs \<and> findIndex (has_id e req) rs = Some idx \<and>
           breakingNews (stored (snd (delete_breaking_news e req w))) = Some (splice1 idx rs)"
proof (cases "breakingNews (stored w)")
  case None
  with assms show ?thesis by (simp add: delete_breaking_news_def Let_def readData_stored)
next
  case (Some rs)
  show ?thesis
  proof (cases "findIndex (has_id e req) rs")
    case None
    with Some assms show ?thesis by (simp add: delete_breaking_news_404)
  next
    case (Some idx)
    with \<open>breakingNews (stored w) = Some rs\<close> show ?thesis
      by (simp add: delete_breaking_news_def Let_def readData_stored findIndex_has_id splice1_map)
  qed
qed

lemma put_featured_stories_404:
  assumes "featuredStories (stored w) = Some rs" "findIndex (has_id e req) rs = None"
  shows "put_featured_stories e req w = (res_json 404 [(''error'', JStr ''Featured story not found'')], w)"
  using assms by (simp add: put_featured_stories_def Let_def readData_stored findIndex_has_id)

lemma delete_featured_stories_404:
  assumes "findIndex (has_id e req) (or_empty (featuredStories (stored w))) = None"
  shows "delete_featured_stories e req w = (res_json 404 [(''error'', JStr ''Featured story not found'')], w)"
  using assms by (simp add: delete_featured_stories_def Let_def readData_stored findIndex_has_id)

lemma delete_featured_stories_200:
  assumes "status (fst (delete_featured_stories e req w)) = 200"
  shows "\<exists>idx. findIndex (has_id e req) (or_empty (featuredStories (stored w))) = Some idx \<and>
           featuredStories (stored (snd (delete_featured_stories e req w))) =
             Some (splice1 idx (or_empty (featuredStories (stored w))))"
proof (cases "findIndex (has_id e req) (or_empty (featuredStories (stored w)))")
  case None
  with assms show ?thesis by (simp add: delete_featured_stories_404)
next
  case (Some idx)
  with assms show ?thesis
    by (auto simp: delete_featured_stories_def Let_def readData_stored findIndex_has_id splice1_map
          stored_logActivity split: option.splits)
qed

lemma put_news_404:
  assumes "news (stored w) = Some rs" "findIndex (has_id e req) rs = None"
  shows "put_news e req w = (res_json 404 [(''error'', JStr ''News not found'')], w)"
  using assms by (simp add: put_news_def Let_def readData_stored findIndex_has_id)

lemma delete_news_404:
  assumes "news (stored w) = Some rs" "findIndex (has_id e req) rs = None"
  shows "delete_news e req w = (res_json 404 [(''error'', JStr ''News not found'')], w)"
  using assms by (simp add: delete_news_def Let_def readData_stored findIndex_has_id)

lemma delete_news_200:
  assumes "status (fst (delete_news e req w)) = 200"
  shows "\<exists>rs idx. news (stored w) = Some rs \<and> findIndex (has_id e req) rs = Some idx \<and>
           news (stored (snd (delete_news e req w))) = Some (splice1 idx rs)"
proof (cases "news (stored w)")
  case None
  with assms show ?thesis by (simp add: delete_news_def Let_def readData_stored)
next
  case (Some rs)
  show ?thesis
  proof (cases "findIndex (has_id e req) rs")
    case None
    with Some assms show ?thesis by (simp add: delete_news_404)
  next
    case (Some idx)
    with \<open>news (stored w) = Some rs\<close> assms show ?thesis
      by (auto simp: delete_news_def Let_def readData_stored findIndex_has_id splice1_map
            stored_logActivity split: option.splits)
  qed
qed

lemma with_upload_unchanged:
  "snd (h req w) = w \<Longrightarrow> snd (with_upload lim flt h req w) = w"
  using with_upload_cases[of lim flt req h w] by auto

lemma with_upload_admitted:
  "multer lim flt (req_files req) = Inr (req_files req) \<Longrightarrow> with_upload lim flt h req w = h req w"
  by (simp add: with_upload_def)

lemma findIndex_after_splice:
  assumes "findIndex P rs = Some idx" "length (filter P rs) = 1"
  shows "findIndex P (splice1 idx rs) = None"
  using splice1_first_only[OF assms] by (simp add: findIndex_None)

section \<open>The properties\<close>

text \<open>
  C1, as the specification states it: when the data file is absent, \<open>readData\<close> returns a
  document in which the eleven collections posters, breakingNews, featuredStories,
  categories, users, media, news, staticPages, tickers, ads and activities are present and
  empty. The code does not do that for \<open>activities\<close>: the key is missing from the
  document it returns.
\<close>

theorem readData_absent_activities_counterexample:
  "activities (readData \<lparr>datafile = None, cloud_calls = []\<rparr>) \<noteq> Some []"
  by (simp add: readData_def)

text \<open>
  C1, amended: when the data file is absent, \<open>readData\<close> returns a document with eleven
  empty collections, which are posters, breakingNews, featuredStories, categories, users,
  media, news, staticPages, tickers, tools and ads; the key \<open>activities\<close> is missing,
  GET /api/activities answers the empty array for it, and the first \<open>logActivity\<close>
  creates it with the one new activity.
\<close>

theorem readData_absent:
  "readData \<lparr>datafile = None, cloud_calls = cs\<rparr> =
     \<lparr>posters = Some [], breakingNews = Some [], featuredStories = Some [],
      categories = Some [], users = Some [], media = Some [], news = Some [],
      staticPages = Some [], tickers = Some [], tools = Some [], ads = Some [],
      activities = None\<rparr>
   \<and> fst (get_activities \<lparr>datafile = None, cloud_calls = cs\<rparr>) = \<lparr>status = 200, body = Arr []\<rparr>
   \<and> activities (stored (snd (logActivity e type title user st \<lparr>datafile = None, cloud_calls = cs\<rparr>))) =
       Some [stringify (fst (logActivity e type title user st \<lparr>datafile = None, cloud_calls = cs\<rparr>))]"
proof -
  have "activities (stored \<lparr>datafile = None, cloud_calls = cs\<rparr>) = None"
    by (simp add: stored_def readData_def)
  then show ?thesis
    by (simp add: readData_def get_activities_def res_json_arr_def stored_logActivity)
qed



text \<open>
  C5: \<open>logActivity\<close> builds the fresh activity, puts it at the front of the log, keeps the
  50 most recent entries (the oldest go first) and writes the whole document; the log never
  holds more than 50 entries after a call, nor in any state the server reaches from its
  start; after 60 calls in a row exactly the 50 most recent activities remain, newest first.
\<close>

theorem activity_log_bounded:
  "fst (logActivity e ty ti u st w) =
     [(''id'', JNum (now_log e)), (''type'', ty), (''title'', ti),
      (''user'', if u = Undefined then JStr ''Admin User'' else u),
      (''status'', if st = Undefined then JStr ''completed'' else st),
      (''timestamp'', JStr (iso_log e))]
   \<and> listed (get_activities (snd (logActivity e ty ti u st w))) =
       take 50 (stringify (fst (logActivity e ty ti u st w)) # listed (get_activities w))
   \<and> length (listed (get_activities (snd (logActivity e ty ti u st w)))) \<le> 50
   \<and> datafile (snd (logActivity e ty ti u st w)) =
       Some ((stored w)\<lparr>activities := Some (listed (get_activities (snd (logActivity e ty ti u st w))))\<rparr>)
   \<and> (length calls = 60 \<longrightarrow>
        listed (get_activities (snd (logged calls w))) =
          map stringify (take 50 (rev (fst (logged calls w)))))
   \<and> (reachable w \<longrightarrow> length (listed (get_activities w)) \<le> 50)"
proof -
  have l: "listed (get_activities (snd (logActivity e ty ti u st w))) =
       take 50 (stringify (fst (logActivity e ty ti u st w)) # listed (get_activities w))"
    by (rule logActivity_listed)
  have b: "length (listed (get_activities (snd (logActivity e ty ti u st w)))) \<le> 50"
    by (simp add: l)
  have d: "datafile (snd (logActivity e ty ti u st w)) =
       Some ((stored w)\<lparr>activities := Some (listed (get_activities (snd (logActivity e ty ti u st w))))\<rparr>)"
    using l by (simp add: datafile_logActivity listed_get_activities)
  have r: "reachable w \<longrightarrow> length (listed (get_activities w)) \<le> 50"
    using reachable_within_bounds[of w] by (simp add: within_bounds_def listed_get_activities)
  show ?thesis
    using fst_logActivity l b d logged_60 r by blast
qed

theorem activity_log_bounded_witness:
  "length (replicate 60 (env0, JStr ''news'', JStr ''t'', Undefined, Undefined)) = 60
   \<and> reachable start
   \<and> listed (get_activities (snd (logged (replicate 60 (env0, JStr ''news'', JStr ''t'', Undefined, Undefined)) start))) =
       map stringify (take 50 (rev (fst (logged (replicate 60 (env0, JStr ''news'', JStr ''t'', Undefined, Undefined)) start))))
   \<and> length (listed (get_activities start)) \<le> 50"
  using activity_log_bounded[of env0 "JStr ''news''" "JStr ''t''" Undefined Undefined start
          "replicate 60 (env0, JStr ''news'', JStr ''t'', Undefined, Undefined)"]
    reachable_start
  by simp



text \<open>
  C4: a create request whose file upload fails is aborted: the answer is HTTP 500 and
  nothing is written to the data file. This holds for every create route that uploads a
  file: breaking news (video, thumbnail), posters (any of the three images), featured
  stories, media, news articles (when the body carries no image URL, so that the file is
  uploaded) and ads. After a POST /api/breaking-news whose video or thumbnail upload
  failed, GET /api/breaking-news answers what it answered before.
\<close>

theorem failed_upload_aborts_create:
  "(files_by_field req ''video'' = f1 # rest1 \<and> upload_fails e f1 ''breaking-news''
      \<longrightarrow> aborted e PostBreakingNews req w \<and>
          fst (get_breaking_news (snd (app e PostBreakingNews req w))) = fst (get_breaking_news w))
   \<and> (files_by_field req ''thumbnail'' = f2 # rest2 \<and> upload_fails e f2 ''breaking-news-thumbnails''
      \<longrightarrow> aborted e PostBreakingNews req w \<and>
          fst (get_breaking_news (snd (app e PostBreakingNews req w))) = fst (get_breaking_news w))
   \<and> (k \<in> {1, 2, 3} \<and> files_by_field req (''posterImage'' @ digit k) = f3 # rest3 \<and>
       upload_fails e f3 ''posters'' \<longrightarrow> aborted e PostPosters req w)
   \<and> (req_files req = f # rest \<and> upload_fails e f ''featured-stories''
      \<longrightarrow> aborted e PostFeaturedStories req w)
   \<and> (req_files req = f # rest \<and> upload_fails e f ''media'' \<longrightarrow> aborted e PostMedia req w)
   \<and> (req_files req = f # rest \<and> upload_fails e f ''news'' \<and> \<not> truthy (get (req_body req) ''imageUrl'')
      \<longrightarrow> aborted e PostNews req w)
   \<and> (req_files req = f # rest \<and> upload_fails e f ''ads'' \<longrightarrow> aborted e PostAds req w)"
proof -
  have g: "aborted e PostBreakingNews req w \<Longrightarrow>
             fst (get_breaking_news (snd (app e PostBreakingNews req w))) = fst (get_breaking_news w)"
    by (auto simp: aborted_def get_breaking_news_def dest!: readData_datafile split: option.splits)
  have 1: "aborted e PostBreakingNews req w"
    if "files_by_field req ''video'' = f1 # rest1" "upload_fails e f1 ''breaking-news''"
    unfolding aborted_def app.simps
    by (rule with_upload_500) (rule post_breaking_news_video_fails[OF that])
  have 2: "aborted e PostBreakingNews req w"
    if "files_by_field req ''thumbnail'' = f2 # rest2" "upload_fails e f2 ''breaking-news-thumbnails''"
    unfolding aborted_def app.simps
    by (rule with_upload_500) (rule post_breaking_news_thumbnail_fails[OF that])
  have 3: "aborted e PostPosters req w"
    if "k \<in> {1, 2, 3}" "files_by_field req (''posterImage'' @ digit k) = f3 # rest3"
       "upload_fails e f3 ''posters''"
    unfolding aborted_def app.simps
    by (rule with_upload_500) (rule post_posters_fails[OF that])
  have 4: "aborted e PostFeaturedStories req w"
    if "req_files req = f # rest" "upload_fails e f ''featured-stories''"
    unfolding aborted_def app.simps
    by (rule with_upload_500) (rule post_featured_stories_fails[OF that])
  have 5: "aborted e PostMedia req w" if "req_files req = f # rest" "upload_fails e f ''media''"
    unfolding aborted_def app.simps
    by (rule with_upload_500) (rule post_media_fails[OF that])
  have 6: "aborted e PostNews req w"
    if "req_files req = f # rest" "upload_fails e f ''news''" "\<not> truthy (get (req_body req) ''imageUrl'')"
    unfolding aborted_def app.simps
    by (rule with_upload_500) (rule post_news_fails[OF that])
  have 7: "aborted e PostAds req w" if "req_files req = f # rest" "upload_fails e f ''ads''"
    unfolding aborted_def app.simps
    by (rule with_upload_500) (rule post_ads_fails[OF that])
  show ?thesis
    using g 1 2 3 4 5 6 7 by blast
qed

theorem failed_upload_aborts_create_witness:
  "files_by_field \<lparr>req_body = [(''headline'', JStr ''Flood'')], req_files = [clip, thumb], params_id = []\<rparr>
     ''video'' = clip # []
   \<and> upload_fails env_down clip ''breaking-news''
   \<and> aborted env_down PostBreakingNews
        \<lparr>req_body = [(''headline'', JStr ''Flood'')], req_files = [clip, thumb], params_id = []\<rparr> world0
   \<and> cloud_calls (snd (app env_down PostBreakingNews
        \<lparr>req_body = [(''headline'', JStr ''Flood'')], req_files = [clip, thumb], params_id = []\<rparr> world0)) =
       [(clip, ''breaking-news'')]
   \<and> aborted env_down PostPosters \<lparr>req_body = [], req_files = [banner], params_id = []\<rparr> world0
   \<and> cloud_calls (snd (app env_down PostPosters \<lparr>req_body = [], req_files = [banner], params_id = []\<rparr> world0)) =
       [(banner, ''posters'')]
   \<and> aborted env_down PostFeaturedStories
        \<lparr>req_body = [(''title'', JStr ''Budget'')], req_files = [photo], params_id = []\<rparr> world0
   \<and> cloud_calls (snd (app env_down PostFeaturedStories
        \<lparr>req_body = [(''title'', JStr ''Budget'')], req_files = [photo], params_id = []\<rparr> world0)) =
       [(photo, ''featured-stories'')]
   \<and> aborted env_down PostNews
        \<lparr>req_body = [(''title'', JStr ''Budget'')], req_files = [photo], params_id = []\<rparr> world0
   \<and> cloud_calls (snd (app env_down PostNews
        \<lparr>req_body = [(''title'', JStr ''Budget'')], req_files = [photo], params_id = []\<rparr> world0)) =
       [(photo, ''news'')]
   \<and> aborted env_down PostAds
        \<lparr>req_body = [(''title'', JStr ''Budget'')], req_files = [photo], params_id = []\<rparr> world0
   \<and> cloud_calls (snd (app env_down PostAds
        \<lparr>req_body = [(''title'', JStr ''Budget'')], req_files = [photo], params_id = []\<rparr> world0)) =
       [(photo, ''ads'')]
   \<and> aborted env_down PostMedia \<lparr>req_body = [], req_files = [scan], params_id = []\<rparr> world0
   \<and> cloud_calls (snd (app env_down PostMedia \<lparr>req_body = [], req_files = [scan], params_id = []\<rparr> world0)) =
       [(scan, ''media'')]"
proof -
  let ?b = "\<lparr>req_body = [(''headline'', JStr ''Flood'')], req_files = [clip, thumb], params_id = []\<rparr>"
  let ?p = "\<lparr>req_body = [], req_files = [banner], params_id = []\<rparr>"
  let ?i = "\<lparr>req_body = [(''title'', JStr ''Budget'')], req_files = [photo], params_id = []\<rparr>"
  let ?m = "\<lparr>req_body = [], req_files = [scan], params_id = []\<rparr>"
  have u: "upload_fails env_down x folder" for x folder
    by (simp add: upload_fails_def env_down_def)
  have v: "files_by_field ?b ''video'' = clip # []"
    by (simp add: files_by_field_def clip_def thumb_def)
  have k: "(1::nat) \<in> {1, 2, 3}" "files_by_field ?p (''posterImage'' @ digit 1) = banner # []"
    by (simp_all add: files_by_field_def banner_def)
  have f: "req_files ?i = photo # []" "\<not> truthy (get (req_body ?i) ''imageUrl'')" "req_files ?m = scan # []"
    by (simp_all add: get_def)
  have a1: "aborted env_down PostBreakingNews ?b world0"
    using failed_upload_aborts_create[of ?b clip "[]" env_down world0] v u by blast
  have a2: "aborted env_down PostPosters ?p world0"
    using failed_upload_aborts_create[of ?p _ _ env_down world0 _ _ 1 banner "[]"] k u by blast
  have a3: "aborted env_down PostFeaturedStories ?i world0" "aborted env_down PostNews ?i world0"
    "aborted env_down PostAds ?i world0"
    using failed_upload_aborts_create[of ?i _ _ env_down world0 _ _ _ _ _ photo "[]"] f u by blast+
  have a4: "aborted env_down PostMedia ?m world0"
    using failed_upload_aborts_create[of ?m _ _ env_down world0 _ _ _ _ _ scan "[]"] f u by blast
  have c: "cloud_calls (snd (app env_down PostBreakingNews ?b world0)) = [(clip, ''breaking-news'')]"
    "cloud_calls (snd (app env_down PostPosters ?p world0)) = [(banner, ''posters'')]"
    "cloud_calls (snd (app env_down PostFeaturedStories ?i world0)) = [(photo, ''featured-stories'')]"
    "cloud_calls (snd (app env_down PostNews ?i world0)) = [(photo, ''news'')]"
    "cloud_calls (snd (app env_down PostAds ?i world0)) = [(photo, ''ads'')]"
    "cloud_calls (snd (app env_down PostMedia ?m world0)) = [(scan, ''media'')]"
    by code_simp+
  show ?thesis
    using v u a1 a2 a3 a4 c by blast
qed

text \<open>
  C7: an uploaded file is admitted only if both its extension and its declared MIME type
  match the allow-list of its field, and is otherwise rejected before any call to the
  media host. The filters do not do that: they test the extension and the MIME type with
  unanchored regular expressions, so that a name or a type that merely contains a listed
  literal passes. The file \<open>a.pngx\<close> declared as \<open>image/png\<close> has the extension
  \<open>.pngx\<close>, which is on no list; both filters admit it, and POST /api/media uploads it
  to the media host and answers 200. The file \<open>run.exejpg\<close> declared as
  \<open>application/x-image/png-not\<close> has neither a listed extension nor a listed MIME type,
  and is admitted and uploaded as well.
\<close>

theorem unlisted_file_admitted:
  "toLowerCase (extname env0 (originalname pngx)) = ''.pngx''
   \<and> mimetype pngx = ''image/png''
   \<and> posterUpload_fileFilter env0 pngx = Inr ()
   \<and> breakingNewsUpload_fileFilter env0 pngx = Inr ()
   \<and> status (fst (app env0 PostMedia \<lparr>req_body = [], req_files = [pngx], params_id = []\<rparr> world0)) = 200
   \<and> cloud_calls (snd (app env0 PostMedia \<lparr>req_body = [], req_files = [pngx], params_id = []\<rparr> world0)) =
       [(pngx, ''media'')]
   \<and> toLowerCase (extname env0 (originalname exejpg)) = ''.exejpg''
   \<and> mimetype exejpg = ''application/x-image/png-not''
   \<and> posterUpload_fileFilter env0 exejpg = Inr ()
   \<and> status (fst (app env0 PostMedia \<lparr>req_body = [], req_files = [exejpg], params_id = []\<rparr> world0)) = 200
   \<and> cloud_calls (snd (app env0 PostMedia \<lparr>req_body = [], req_files = [exejpg], params_id = []\<rparr> world0)) =
       [(exejpg, ''media'')]"
  by code_simp

text \<open>
  What the filters do: a file passes when one of the listed literals occurs in its
  lower-cased extension and one in its MIME type (for the breaking-news fields, both from
  the video list or both from the image list). A file that does not pass is rejected with
  an error whose message names the MIME type and the extension, as a file \<open>.exe\<close>
  declared as \<open>application/octet-stream\<close> is on every field; the request is then
  answered before the handler runs, so that no upload is sent and nothing is written.
\<close>

lemma fileFilter_tests:
  "(posterUpload_fileFilter e f = Inr () \<longleftrightarrow>
      regex_test [''jpeg'', ''jpg'', ''png'', ''gif'', ''webp'', ''avif'']
        (toLowerCase (extname e (originalname f))) \<and>
      regex_test [''image/jpeg'', ''image/jpg'', ''image/png'', ''image/gif'', ''image/webp'', ''image/avif'']
        (mimetype f))
   \<and> (breakingNewsUpload_fileFilter e f = Inr () \<longleftrightarrow>
      regex_test [''mp4'', ''mov'', ''avi'', ''wmv''] (toLowerCase (extname e (originalname f))) \<and>
      regex_test [''video/mp4'', ''video/quicktime'', ''video/avi'', ''video/x-msvideo''] (mimetype f)
      \<or>
      regex_test [''jpeg'', ''jpg'', ''png'', ''gif'', ''webp''] (toLowerCase (extname e (originalname f))) \<and>
      regex_test [''image/jpeg'', ''image/jpg'', ''image/png'', ''image/gif'', ''image/webp''] (mimetype f))
   \<and> (posterUpload_fileFilter e f \<noteq> Inr () \<longrightarrow>
        posterUpload_fileFilter e f =
          Inl (''Invalid file type. Only JPEG, JPG, PNG, GIF, WebP, and AVIF are allowed. Got: ''
               @ mimetype f @ '' with extension: '' @ toLowerCase (extname e (originalname f))))
   \<and> (breakingNewsUpload_fileFilter e f \<noteq> Inr () \<longrightarrow>
        breakingNewsUpload_fileFilter e f =
          Inl (''Invalid file type. Only video (MP4, MOV, AVI, WMV) and image (JPEG, JPG, PNG, GIF, WebP) files are allowed. Got: ''
               @ mimetype f @ '' with extension: '' @ toLowerCase (extname e (originalname f))))
   \<and> (toLowerCase (extname e (originalname f)) = ''.exe'' \<and> mimetype f = ''application/octet-stream''
        \<longrightarrow> posterUpload_fileFilter e f \<noteq> Inr () \<and> breakingNewsUpload_fileFilter e f \<noteq> Inr ())
   \<and> (f \<in> set (req_files req) \<and> posterUpload_fileFilter e f \<noteq> Inr () \<and>
       r1 \<in> {PostPosters, PostFeaturedStories, PutFeaturedStories, PostMedia, PostNews, PutNews, PostAds}
        \<longrightarrow> status (fst (app e r1 req w)) = 500 \<and> snd (app e r1 req w) = w)
   \<and> (f \<in> set (req_files req) \<and> breakingNewsUpload_fileFilter e f \<noteq> Inr () \<and>
       r2 \<in> {PostBreakingNews, PutBreakingNews}
        \<longrightarrow> status (fst (app e r2 req w)) = 500 \<and> snd (app e r2 req w) = w)"
proof -
  have p: "\<exists>m. posterUpload_fileFilter e f = Inl m" if "posterUpload_fileFilter e f \<noteq> Inr ()"
    using that by (cases "posterUpload_fileFilter e f") auto
  have b: "\<exists>m. breakingNewsUpload_fileFilter e f = Inl m" if "breakingNewsUpload_fileFilter e f \<noteq> Inr ()"
    using that by (cases "breakingNewsUpload_fileFilter e f") auto
  have 1: "status (fst (app e r1 req w)) = 500 \<and> snd (app e r1 req w) = w"
    if "f \<in> set (req_files req)" "posterUpload_fileFilter e f \<noteq> Inr ()"
       "r1 \<in> {PostPosters, PostFeaturedStories, PutFeaturedStories, PostMedia, PostNews, PutNews, PostAds}"
    using p[OF that(2)] that(1,3) with_upload_rejects[of f req "posterUpload_fileFilter e"]
    by auto
  have 2: "status (fst (app e r2 req w)) = 500 \<and> snd (app e r2 req w) = w"
    if "f \<in> set (req_files req)" "breakingNewsUpload_fileFilter e f \<noteq> Inr ()"
       "r2 \<in> {PostBreakingNews, PutBreakingNews}"
    using b[OF that(2)] that(1,3) with_upload_rejects[of f req "breakingNewsUpload_fileFilter e"]
    by auto
  have 3: "toLowerCase (extname e (originalname f)) = ''.exe'' \<and> mimetype f = ''application/octet-stream''
        \<longrightarrow> posterUpload_fileFilter e f \<noteq> Inr () \<and> breakingNewsUpload_fileFilter e f \<noteq> Inr ()"
    by (simp add: posterUpload_fileFilter_def breakingNewsUpload_fileFilter_def Let_def regex_test_def)
  have 4: "posterUpload_fileFilter e f = Inr () \<longleftrightarrow>
      regex_test [''jpeg'', ''jpg'', ''png'', ''gif'', ''webp'', ''avif'']
        (toLowerCase (extname e (originalname f))) \<and>
      regex_test [''image/jpeg'', ''image/jpg'', ''image/png'', ''image/gif'', ''image/webp'', ''image/avif'']
        (mimetype f)"
    by (simp add: posterUpload_fileFilter_def Let_def)
  have 5: "breakingNewsUpload_fileFilter e f = Inr () \<longleftrightarrow>
      regex_test [''mp4'', ''mov'', ''avi'', ''wmv''] (toLowerCase (extname e (originalname f))) \<and>
      regex_test [''video/mp4'', ''video/quicktime'', ''video/avi'', ''video/x-msvideo''] (mimetype f)
      \<or>
      regex_test [''jpeg'', ''jpg'', ''png'', ''gif'', ''webp''] (toLowerCase (extname e (originalname f))) \<and>
      regex_test [''image/jpeg'', ''image/jpg'', ''image/png'', ''image/gif'', ''image/webp''] (mimetype f)"
    by (simp add: breakingNewsUpload_fileFilter_def Let_def)
  have 6: "posterUpload_fileFilter e f \<noteq> Inr () \<longrightarrow>
        posterUpload_fileFilter e f =
          Inl (''Invalid file type. Only JPEG, JPG, PNG, GIF, WebP, and AVIF are allowed. Got: ''
               @ mimetype f @ '' with extension: '' @ toLowerCase (extname e (originalname f)))"
    by (simp add: posterUpload_fileFilter_def Let_def)
  have 7: "breakingNewsUpload_fileFilter e f \<noteq> Inr () \<longrightarrow>
        breakingNewsUpload_fileFilter e f =
          Inl (''Invalid file type. Only video (MP4, MOV, AVI, WMV) and image (JPEG, JPG, PNG, GIF, WebP) files are allowed. Got: ''
               @ mimetype f @ '' with extension: '' @ toLowerCase (extname e (originalname f)))"
    by (simp add: breakingNewsUpload_fileFilter_def Let_def)
  show ?thesis
    using 1 2 3 4 5 6 7 by blast
qed

lemma installer_rejected:
  "toLowerCase (extname env0 (originalname installer)) = ''.exe''
   \<and> mimetype installer = ''application/octet-stream''
   \<and> installer \<in> set (req_files \<lparr>req_body = [], req_files = [installer], params_id = []\<rparr>)
   \<and> posterUpload_fileFilter env0 installer =
        Inl (''Invalid file type. Only JPEG, JPG, PNG, GIF, WebP, and AVIF are allowed. Got: ''
             @ ''application/octet-stream'' @ '' with extension: '' @ ''.exe'')
   \<and> status (fst (app env0 PostMedia \<lparr>req_body = [], req_files = [installer], params_id = []\<rparr> world0)) = 500
   \<and> snd (app env0 PostMedia \<lparr>req_body = [], req_files = [installer], params_id = []\<rparr> world0) = world0
   \<and> status (fst (app env0 PostBreakingNews \<lparr>req_body = [], req_files = [installer], params_id = []\<rparr> world0)) = 500
   \<and> snd (app env0 PostBreakingNews \<lparr>req_body = [], req_files = [installer], params_id = []\<rparr> world0) = world0"
proof -
  have x: "toLowerCase (extname env0 (originalname installer)) = ''.exe''"
    by code_simp
  have m: "mimetype installer = ''application/octet-stream''"
    by (simp add: installer_def)
  have i: "installer \<in> set (req_files \<lparr>req_body = [], req_files = [installer], params_id = []\<rparr>)"
    by simp
  have r: "PostMedia \<in> {PostPosters, PostFeaturedStories, PutFeaturedStories, PostMedia, PostNews, PutNews, PostAds}"
    "PostBreakingNews \<in> {PostBreakingNews, PutBreakingNews}"
    by simp_all
  note t = fileFilter_tests[of env0 installer "\<lparr>req_body = [], req_files = [installer], params_id = []\<rparr>"
               PostMedia world0 PostBreakingNews, unfolded x m]
  have c: "posterUpload_fileFilter env0 installer =
        Inl (''Invalid file type. Only JPEG, JPG, PNG, GIF, WebP, and AVIF are allowed. Got: ''
             @ ''application/octet-stream'' @ '' with extension: '' @ ''.exe'')
   \<and> status (fst (app env0 PostMedia \<lparr>req_body = [], req_files = [installer], params_id = []\<rparr> world0)) = 500
   \<and> snd (app env0 PostMedia \<lparr>req_body = [], req_files = [installer], params_id = []\<rparr> world0) = world0
   \<and> status (fst (app env0 PostBreakingNews \<lparr>req_body = [], req_files = [installer], params_id = []\<rparr> world0)) = 500
   \<and> snd (app env0 PostBreakingNews \<lparr>req_body = [], req_files = [installer], params_id = []\<rparr> world0) = world0"
    using t i r by blast
  show ?thesis
    using x m i c by blast
qed

text \<open>
  C8: login succeeds exactly when some stored user record has the request's username and
  the request's password, compared with \<open>===\<close>; it then answers the first such record
  without its \<open>password\<close> property. Every failure, whether the username is unknown or
  the password is wrong, gets the same answer: HTTP 401 with
  \<open>{success: false, message: 'Invalid credentials'}\<close>. Login writes nothing. The users
  collection is taken to be present in the document, and a record, being an object, to
  have no key twice.
\<close>

theorem login_outcome:
  assumes "users (stored w) = Some rs" "\<forall>r \<in> set rs. distinct (map fst r)"
  shows "(case find (\<lambda>r. strict_eq (get (parse r) ''username'') (get (req_body req) ''username'') \<and>
                         strict_eq (get (parse r) ''password'') (get (req_body req) ''password'')) rs of
            Some r \<Rightarrow>
              fst (login req w) =
                \<lparr>status = 200,
                 body = ObjWith [(''success'', JsBool True)] ''user'' (filter (\<lambda>p. fst p \<noteq> ''password'') r)\<rparr>
          | None \<Rightarrow>
              fst (login req w) =
                \<lparr>status = 401,
                 body = Obj [(''success'', JsBool False), (''message'', JsStr ''Invalid credentials'')]\<rparr>)
         \<and> (status (fst (login req w)) = 200 \<longleftrightarrow>
              (\<exists>r \<in> set rs. strict_eq (get (parse r) ''username'') (get (req_body req) ''username'') \<and>
                              strict_eq (get (parse r) ''password'') (get (req_body req) ''password'')))
         \<and> (status (fst (login req w)) \<noteq> 200 \<and> status (fst (login req' w)) \<noteq> 200
              \<longrightarrow> fst (login req w) = fst (login req' w))
         \<and> snd (login req w) = w"
proof -
  let ?P = "\<lambda>q r. strict_eq (get (parse r) ''username'') (get (req_body q) ''username'') \<and>
                   strict_eq (get (parse r) ''password'') (get (req_body q) ''password'')"
  have u: "users (readData w) = Some (map parse rs)"
    using assms(1) by (simp add: readData_stored)
  have ok: "fst (login q w) =
        \<lparr>status = 200,
         body = ObjWith [(''success'', JsBool True)] ''user'' (filter (\<lambda>p. fst p \<noteq> ''password'') r)\<rparr>"
    if "find (?P q) rs = Some r" for q r
  proof -
    from that have "r \<in> set rs" by (auto simp: find_Some_iff)
    with assms(2) have "distinct (map fst (parse r))" by simp
    then have "stringify (spread_set (parse r) [(''password'', Undefined)]) =
                 filter (\<lambda>p. fst p \<noteq> ''password'') r"
      by (simp add: spread_set_def stringify_update_Undefined)
    with that show ?thesis
      by (simp add: login_def Let_def u find_map comp_def)
  qed
  have ko: "fst (login q w) =
        \<lparr>status = 401,
         body = Obj [(''success'', JsBool False), (''message'', JsStr ''Invalid credentials'')]\<rparr>"
    if "find (?P q) rs = None" for q
    using that by (simp add: login_def Let_def u find_map comp_def res_json_def)
  have st: "status (fst (login q w)) = 200 \<longleftrightarrow> (\<exists>r \<in> set rs. ?P q r)" for q
  proof (cases "find (?P q) rs")
    case None
    then show ?thesis using ko[OF None] by (auto simp: find_None_iff)
  next
    case (Some r)
    then show ?thesis using ok[OF Some] by (auto simp: find_Some_iff)
  qed
  have c1: "(case find (?P req) rs of
            Some r \<Rightarrow>
              fst (login req w) =
                \<lparr>status = 200,
                 body = ObjWith [(''success'', JsBool True)] ''user'' (filter (\<lambda>p. fst p \<noteq> ''password'') r)\<rparr>
          | None \<Rightarrow>
              fst (login req w) =
                \<lparr>status = 401,
                 body = Obj [(''success'', JsBool False), (''message'', JsStr ''Invalid credentials'')]\<rparr>)"
    using ok[of req] ko[of req] by (cases "find (?P req) rs") auto
  have c3: "status (fst (login req w)) \<noteq> 200 \<and> status (fst (login req' w)) \<noteq> 200
              \<longrightarrow> fst (login req w) = fst (login req' w)"
  proof (intro impI, elim conjE)
    assume a: "status (fst (login req w)) \<noteq> 200" and b: "status (fst (login req' w)) \<noteq> 200"
    have "find (?P req) rs = None"
      using a ok[of req] by (cases "find (?P req) rs") auto
    moreover have "find (?P req') rs = None"
      using b ok[of req'] by (cases "find (?P req') rs") auto
    ultimately show "fst (login req w) = fst (login req' w)"
      using ko by simp
  qed
  have c4: "snd (login req w) = w"
    by (simp add: login_def Let_def split: option.splits)
  show ?thesis
    using c1 st[of req] c3 c4 by blast
qed

theorem login_outcome_witness:
  "users (stored world0) =
     Some [[(''id'', JsNum 1), (''username'', JsStr ''admin''), (''password'', JsStr ''secret''),
            (''role'', JsStr ''admin''), (''email'', JsStr ''a@x''), (''timestamp'', JsStr ''t0'')]]
   \<and> fst (login \<lparr>req_body = [(''username'', JStr ''admin''), (''password'', JStr ''secret'')],
                   req_files = [], params_id = []\<rparr> world0) =
       \<lparr>status = 200,
        body = ObjWith [(''success'', JsBool True)] ''user''
                 [(''id'', JsNum 1), (''username'', JsStr ''admin''), (''role'', JsStr ''admin''),
                  (''email'', JsStr ''a@x''), (''timestamp'', JsStr ''t0'')]\<rparr>
   \<and> fst (login \<lparr>req_body = [(''username'', JStr ''admin''), (''password'', JStr ''wrongpass'')],
                   req_files = [], params_id = []\<rparr> world0) =
       \<lparr>status = 401,
        body = Obj [(''success'', JsBool False), (''message'', JsStr ''Invalid credentials'')]\<rparr>
   \<and> fst (login \<lparr>req_body = [(''username'', JStr ''admin''), (''password'', JStr ''wrongpass'')],
                   req_files = [], params_id = []\<rparr> world0) =
       fst (login \<lparr>req_body = [(''username'', JStr ''nouser''), (''password'', JStr ''x'')],
                   req_files = [], params_id = []\<rparr> world0)"
proof -
  let ?admin = "[(''id'', JsNum 1), (''username'', JsStr ''admin''), (''password'', JsStr ''secret''),
                 (''role'', JsStr ''admin''), (''email'', JsStr ''a@x''), (''timestamp'', JsStr ''t0'')]"
  let ?good = "\<lparr>req_body = [(''username'', JStr ''admin''), (''password'', JStr ''secret'')],
                req_files = [], params_id = []\<rparr>"
  let ?wrong = "\<lparr>req_body = [(''username'', JStr ''admin''), (''password'', JStr ''wrongpass'')],
                 req_files = [], params_id = []\<rparr>"
  let ?nouser = "\<lparr>req_body = [(''username'', JStr ''nouser''), (''password'', JStr ''x'')],
                  req_files = [], params_id = []\<rparr>"
  have u: "users (stored world0) = Some [?admin]"
    by (simp add: stored_def readData_def world0_def doc0_def)
  have d: "\<forall>r \<in> set [?admin]. distinct (map fst r)"
    by simp
  from login_outcome[OF u d, of ?good ?good]
  have g: "fst (login ?good world0) =
       \<lparr>status = 200,
        body = ObjWith [(''success'', JsBool True)] ''user''
                 [(''id'', JsNum 1), (''username'', JsStr ''admin''), (''role'', JsStr ''admin''),
                  (''email'', JsStr ''a@x''), (''timestamp'', JsStr ''t0'')]\<rparr>"
    by (simp add: strict_eq_def get_def parse_def)
  note t = login_outcome[OF u d, of ?wrong ?nouser]
  from t have b: "fst (login ?wrong world0) =
       \<lparr>status = 401,
        body = Obj [(''success'', JsBool False), (''message'', JsStr ''Invalid credentials'')]\<rparr>"
    by (simp add: strict_eq_def get_def parse_def)
  from login_outcome[OF u d, of ?nouser ?nouser]
  have n: "fst (login ?nouser world0) =
       \<lparr>status = 401,
        body = Obj [(''success'', JsBool False), (''message'', JsStr ''Invalid credentials'')]\<rparr>"
    by (simp add: strict_eq_def get_def parse_def)
  have s1: "status (fst (login ?wrong world0)) \<noteq> 200"
    by (simp add: b)
  have s2: "status (fst (login ?nouser world0)) \<noteq> 200"
    by (simp add: n)
  have e: "fst (login ?wrong world0) = fst (login ?nouser world0)"
    using t s1 s2 by blast
  show ?thesis
    using u g b e by blast
qed

text \<open>
  C9: a create builds the new record with a fresh id and defaults for what the request
  leaves out, inserts it by the entity's ordering rule and returns the created record.
  POST /api/featured-stories does not always return it: the handler writes the story and
  then builds the activity title with \<open>title.substring\<close>, which throws when the request
  has no title. For a request with a description and no title the story is appended to
  the stored list, and the answer is HTTP 500 with an error object in place of the story.
\<close>

theorem post_featured_stories_stores_then_fails:
  "status (fst (app env0 PostFeaturedStories untitled world0)) = 500
   \<and> (case body (fst (app env0 PostFeaturedStories untitled world0)) of
         Obj b \<Rightarrow> map fst b | _ \<Rightarrow> []) = [''error'', ''details'']
   \<and> listed (get_featured_stories (snd (app env0 PostFeaturedStories untitled world0))) =
       listed (get_featured_stories world0) @
       [[(''id'', JsNum 1700000000000), (''description'', JsStr ''No title given''),
         (''content'', JsStr ''No title given''), (''excerpt'', JsStr ''No title given''),
         (''imageUrl'', JsStr []), (''priority'', JsNum 1), (''views'', JsStr ''0''),
         (''timestamp'', JsStr ''2023-11-14T22:13:20.000Z'')]]"
  by code_simp

text \<open>
  What the two creates do when they answer 200 or 201: POST /api/breaking-news answers
  the new item, whose id is the clock reading, whose \<open>videoUrl\<close> and \<open>thumbnail\<close> are
  the empty string when no such file is attached and whose \<open>youtubeUrl\<close> is the empty
  string when the request has none, and the item is then the first of the list;
  POST /api/featured-stories answers the new story, whose \<open>imageUrl\<close> is the empty
  string when no file is attached, whose \<open>priority\<close> is 1 when the request has none and
  whose \<open>views\<close> is \<open>'0'\<close>, and the story is then the last of the list.
\<close>

lemma create_on_success:
  "(status (fst (app e PostBreakingNews req w)) = 200 \<longrightarrow>
     (\<exists>videoUrl thumbnailUrl.
        body (fst (app e PostBreakingNews req w)) =
          Obj (stringify [(''id'', JNum (now e)),
                          (''headline'', get (req_body req) ''headline''),
                          (''shortDescription'', get (req_body req) ''shortDescription''),
                          (''fullDescription'', get (req_body req) ''fullDescription''),
                          (''category'', get (req_body req) ''category''),
                          (''state'', get (req_body req) ''state''),
                          (''videoUrl'', videoUrl),
                          (''thumbnail'', js_or thumbnailUrl (JStr [])),
                          (''youtubeUrl'', js_or (get (req_body req) ''youtubeUrl'') (JStr [])),
                          (''timestamp'', JStr (iso e))])
        \<and> (\<forall>rec. body (fst (app e PostBreakingNews req w)) = Obj rec \<longrightarrow>
              listed (get_breaking_news (snd (app e PostBreakingNews req w))) =
                rec # listed (get_breaking_news w))
        \<and> (files_by_field req ''video'' = [] \<longrightarrow> videoUrl = JStr [])
        \<and> (files_by_field req ''thumbnail'' = [] \<longrightarrow> thumbnailUrl = JStr [])))
   \<and> (status (fst (app e PostFeaturedStories req w)) = 201 \<longrightarrow>
     (\<exists>imageUrl.
        body (fst (app e PostFeaturedStories req w)) =
          Obj (stringify [(''id'', JNum (now e)),
                          (''title'', get (req_body req) ''title''),
                          (''description'', get (req_body req) ''description''),
                          (''content'', js_or (get (req_body req) ''content'') (get (req_body req) ''description'')),
                          (''category'', get (req_body req) ''category''),
                          (''state'', get (req_body req) ''state''),
                          (''excerpt'', js_or (get (req_body req) ''excerpt'') (get (req_body req) ''description'')),
                          (''imageUrl'', imageUrl),
                          (''priority'', if truthy (get (req_body req) ''priority'')
                                         then Number_js e (get (req_body req) ''priority'') else JNum 1),
                          (''views'', JStr ''0''),
                          (''timestamp'', JStr (iso e))])
        \<and> (\<forall>rec. body (fst (app e PostFeaturedStories req w)) = Obj rec \<longrightarrow>
              listed (get_featured_stories (snd (app e PostFeaturedStories req w))) =
                listed (get_featured_stories w) @ [rec])
        \<and> (req_files req = [] \<longrightarrow> imageUrl = JStr [])))"
proof (intro conjI impI)
  assume a: "status (fst (app e PostBreakingNews req w)) = 200"
  have "app e PostBreakingNews req w = post_breaking_news e req w"
    using with_upload_cases[of None "breakingNewsUpload_fileFilter e" req "post_breaking_news e" w] a
    by auto
  with a post_breaking_news_ok[of e req w]
  show "\<exists>videoUrl thumbnailUrl.
        body (fst (app e PostBreakingNews req w)) =
          Obj (stringify [(''id'', JNum (now e)),
                          (''headline'', get (req_body req) ''headline''),
                          (''shortDescription'', get (req_body req) ''shortDescription''),
                          (''fullDescription'', get (req_body req) ''fullDescription''),
                          (''category'', get (req_body req) ''category''),
                          (''state'', get (req_body req) ''state''),
                          (''videoUrl'', videoUrl),
                          (''thumbnail'', js_or thumbnailUrl (JStr [])),
                          (''youtubeUrl'', js_or (get (req_body req) ''youtubeUrl'') (JStr [])),
                          (''timestamp'', JStr (iso e))])
        \<and> (\<forall>rec. body (fst (app e PostBreakingNews req w)) = Obj rec \<longrightarrow>
              listed (get_breaking_news (snd (app e PostBreakingNews req w))) =
                rec # listed (get_breaking_news w))
        \<and> (files_by_field req ''video'' = [] \<longrightarrow> videoUrl = JStr [])
        \<and> (files_by_field req ''thumbnail'' = [] \<longrightarrow> thumbnailUrl = JStr [])"
    by simp
next
  assume a: "status (fst (app e PostFeaturedStories req w)) = 201"
  have "app e PostFeaturedStories req w = post_featured_stories e req w"
    using with_upload_cases[of "Some [(''image'', 1)]" "posterUpload_fileFilter e" req
            "post_featured_stories e" w] a
    by auto
  with a post_featured_stories_ok[of e req w]
  show "\<exists>imageUrl.
        body (fst (app e PostFeaturedStories req w)) =
          Obj (stringify [(''id'', JNum (now e)),
                          (''title'', get (req_body req) ''title''),
                          (''description'', get (req_body req) ''description''),
                          (''content'', js_or (get (req_body req) ''content'') (get (req_body req) ''description'')),
                          (''category'', get (req_body req) ''category''),
                          (''state'', get (req_body req) ''state''),
                          (''excerpt'', js_or (get (req_body req) ''excerpt'') (get (req_body req) ''description'')),
                          (''imageUrl'', imageUrl),
                          (''priority'', if truthy (get (req_body req) ''priority'')
                                         then Number_js e (get (req_body req) ''priority'') else JNum 1),
                          (''views'', JStr ''0''),
                          (''timestamp'', JStr (iso e))])
        \<and> (\<forall>rec. body (fst (app e PostFeaturedStories req w)) = Obj rec \<longrightarrow>
              listed (get_featured_stories (snd (app e PostFeaturedStories req w))) =
                listed (get_featured_stories w) @ [rec])
        \<and> (req_files req = [] \<longrightarrow> imageUrl = JStr [])"
    by simp
qed

lemma create_on_success_example:
  "status (fst (app env0 PostBreakingNews
      \<lparr>req_body = [(''headline'', JStr ''Flood''), (''title'', JStr ''Budget'')], req_files = [],
       params_id = []\<rparr> world0)) = 200
   \<and> listed (get_breaking_news (snd (app env0 PostBreakingNews
      \<lparr>req_body = [(''headline'', JStr ''Flood''), (''title'', JStr ''Budget'')], req_files = [],
       params_id = []\<rparr> world0))) =
       [(''id'', JsNum 1700000000000), (''headline'', JsStr ''Flood''), (''videoUrl'', JsStr []),
        (''thumbnail'', JsStr []), (''youtubeUrl'', JsStr []),
        (''timestamp'', JsStr ''2023-11-14T22:13:20.000Z'')]
       # or_empty (breakingNews doc0)
   \<and> status (fst (app env0 PostFeaturedStories
      \<lparr>req_body = [(''headline'', JStr ''Flood''), (''title'', JStr ''Budget'')], req_files = [],
       params_id = []\<rparr> world0)) = 201
   \<and> listed (get_featured_stories (snd (app env0 PostFeaturedStories
      \<lparr>req_body = [(''headline'', JStr ''Flood''), (''title'', JStr ''Budget'')], req_files = [],
       params_id = []\<rparr> world0))) =
       or_empty (featuredStories doc0) @
       [[(''id'', JsNum 1700000000000), (''title'', JsStr ''Budget''), (''imageUrl'', JsStr []),
         (''priority'', JsNum 1), (''views'', JsStr ''0''),
         (''timestamp'', JsStr ''2023-11-14T22:13:20.000Z'')]]"
proof -
  let ?req = "\<lparr>req_body = [(''headline'', JStr ''Flood''), (''title'', JStr ''Budget'')], req_files = [],
               params_id = []\<rparr>"
  have b: "status (fst (app env0 PostBreakingNews ?req world0)) = 200"
    by (simp add: with_upload_def post_breaking_news_def Let_def files_by_field_def readData_def
          world0_def doc0_def map_document_def)
  have f: "status (fst (app env0 PostFeaturedStories ?req world0)) = 201"
    by (simp add: with_upload_def post_featured_stories_def Let_def get_def title_snippet_def)
  have lb: "listed (get_breaking_news world0) = or_empty (breakingNews doc0)"
    by (simp add: listed_get_breaking_news stored_def readData_def world0_def)
  have lf: "listed (get_featured_stories world0) = or_empty (featuredStories doc0)"
    by (simp add: listed_get_featured_stories stored_def readData_def world0_def)
  note t = create_on_success[of env0 ?req world0]
  from t b obtain videoUrl thumbnailUrl where
    1: "body (fst (app env0 PostBreakingNews ?req world0)) =
          Obj (stringify [(''id'', JNum (now env0)),
                          (''headline'', get (req_body ?req) ''headline''),
                          (''shortDescription'', get (req_body ?req) ''shortDescription''),
                          (''fullDescription'', get (req_body ?req) ''fullDescription''),
                          (''category'', get (req_body ?req) ''category''),
                          (''state'', get (req_body ?req) ''state''),
                          (''videoUrl'', videoUrl),
                          (''thumbnail'', js_or thumbnailUrl (JStr [])),
                          (''youtubeUrl'', js_or (get (req_body ?req) ''youtubeUrl'') (JStr [])),
                          (''timestamp'', JStr (iso env0))])"
    and 2: "\<forall>rec. body (fst (app env0 PostBreakingNews ?req world0)) = Obj rec \<longrightarrow>
              listed (get_breaking_news (snd (app env0 PostBreakingNews ?req world0))) =
                rec # listed (get_breaking_news world0)"
    and 3: "files_by_field ?req ''video'' = [] \<longrightarrow> videoUrl = JStr []"
           "files_by_field ?req ''thumbnail'' = [] \<longrightarrow> thumbnailUrl = JStr []"
    by blast
  have v: "videoUrl = JStr []" "thumbnailUrl = JStr []"
    using 3 by (simp_all add: files_by_field_def)
  have nb: "listed (get_breaking_news (snd (app env0 PostBreakingNews ?req world0))) =
       [(''id'', JsNum 1700000000000), (''headline'', JsStr ''Flood''), (''videoUrl'', JsStr []),
        (''thumbnail'', JsStr []), (''youtubeUrl'', JsStr []),
        (''timestamp'', JsStr ''2023-11-14T22:13:20.000Z'')]
       # or_empty (breakingNews doc0)"
    using 1 2 by (simp add: v lb get_def js_or_def env0_def del: app.simps)
  from t f obtain imageUrl where
    4: "body (fst (app env0 PostFeaturedStories ?req world0)) =
          Obj (stringify [(''id'', JNum (now env0)),
                          (''title'', get (req_body ?req) ''title''),
                          (''description'', get (req_body ?req) ''description''),
                          (''content'', js_or (get (req_body ?req) ''content'') (get (req_body ?req) ''description'')),
                          (''category'', get (req_body ?req) ''category''),
                          (''state'', get (req_body ?req) ''state''),
                          (''excerpt'', js_or (get (req_body ?req) ''excerpt'') (get (req_body ?req) ''description'')),
                          (''imageUrl'', imageUrl),
                          (''priority'', if truthy (get (req_body ?req) ''priority'')
                                         then Number_js env0 (get (req_body ?req) ''priority'') else JNum 1),
                          (''views'', JStr ''0''),
                          (''timestamp'', JStr (iso env0))])"
    and 5: "\<forall>rec. body (fst (app env0 PostFeaturedStories ?req world0)) = Obj rec \<longrightarrow>
              listed (get_featured_stories (snd (app env0 PostFeaturedStories ?req world0))) =
                listed (get_featured_stories world0) @ [rec]"
    and 6: "req_files ?req = [] \<longrightarrow> imageUrl = JStr []"
    by blast
  have i: "imageUrl = JStr []"
    using 6 by simp
  have nf: "listed (get_featured_stories (snd (app env0 PostFeaturedStories ?req world0))) =
       or_empty (featuredStories doc0) @
       [[(''id'', JsNum 1700000000000), (''title'', JsStr ''Budget''), (''imageUrl'', JsStr []),
         (''priority'', JsNum 1), (''views'', JsStr ''0''),
         (''timestamp'', JsStr ''2023-11-14T22:13:20.000Z'')]]"
    using 4 5 by (simp add: i lf get_def js_or_def env0_def del: app.simps)
  show ?thesis
    using b f nb nf by blast
qed

text \<open>
  C6, as the specification states it: an update or a delete with an id that is not in the
  collection answers 404 and writes nothing; hence a second delete of the same id answers
  404, and after a successful delete the list no longer contains the id. The last two
  fail when two records carry the same id, which \<open>Date.now()\<close> gives to two items
  created within one millisecond: \<open>splice(idx, 1)\<close> removes the first of them only.
  Here two breaking-news items are created at the same clock reading on a fresh server;
  the delete succeeds, the list still holds a record with the id, and the second delete
  succeeds again.
\<close>

theorem delete_duplicate_id_counterexample:
  "reachable twice_posted
   \<and> status (fst (app env0 DeleteBreakingNews flood_delete twice_posted)) = 200
   \<and> list_ex (has_id env0 flood_delete)
        (listed (get_breaking_news (snd (app env0 DeleteBreakingNews flood_delete twice_posted))))
   \<and> status (fst (app env0 DeleteBreakingNews flood_delete
                     (snd (app env0 DeleteBreakingNews flood_delete twice_posted)))) = 200"
proof -
  have r: "reachable twice_posted"
    unfolding twice_posted_def by (intro reachable_step reachable_start)
  have "status (fst (app env0 DeleteBreakingNews flood_delete twice_posted)) = 200
   \<and> list_ex (has_id env0 flood_delete)
        (listed (get_breaking_news (snd (app env0 DeleteBreakingNews flood_delete twice_posted))))
   \<and> status (fst (app env0 DeleteBreakingNews flood_delete
                     (snd (app env0 DeleteBreakingNews flood_delete twice_posted)))) = 200"
    by code_simp
  with r show ?thesis by blast
qed

text \<open>
  C6, amended: for breaking news, featured stories and news articles, an update or a
  delete with an id that no record of the collection carries answers 404 (the update
  unless the upload middleware rejects a file of the request) and leaves data file and
  upload log as they were. A successful delete removes the first record that carries the id. When exactly one
  record carries it, the list no longer contains the id afterwards and a second delete of
  the same id answers 404.
\<close>

theorem not_found_and_delete:
  "(breakingNews (stored w) = Some rs1 \<and> (\<forall>r \<in> set rs1. \<not> has_id e req r) \<longrightarrow>
      status (fst (put_breaking_news e req w)) = 404 \<and> snd (app e PutBreakingNews req w) = w \<and>
      (multer None (breakingNewsUpload_fileFilter e) (req_files req) = Inr (req_files req) \<longrightarrow>
         status (fst (app e PutBreakingNews req w)) = 404) \<and>
      status (fst (app e DeleteBreakingNews req w)) = 404 \<and> snd (app e DeleteBreakingNews req w) = w)
   \<and> (featuredStories (stored w) = Some rs2 \<and> (\<forall>r \<in> set rs2. \<not> has_id e req r) \<longrightarrow>
      status (fst (put_featured_stories e req w)) = 404 \<and> snd (app e PutFeaturedStories req w) = w \<and>
      (multer (Some [(''image'', 1)]) (posterUpload_fileFilter e) (req_files req) = Inr (req_files req) \<longrightarrow>
         status (fst (app e PutFeaturedStories req w)) = 404) \<and>
      status (fst (app e DeleteFeaturedStories req w)) = 404 \<and> snd (app e DeleteFeaturedStories req w) = w)
   \<and> (news (stored w) = Some rs3 \<and> (\<forall>r \<in> set rs3. \<not> has_id e req r) \<longrightarrow>
      status (fst (put_news e req w)) = 404 \<and> snd (app e PutNews req w) = w \<and>
      (multer (Some [(''image'', 1)]) (posterUpload_fileFilter e) (req_files req) = Inr (req_files req) \<longrightarrow>
         status (fst (app e PutNews req w)) = 404) \<and>
      status (fst (app e DeleteNews req w)) = 404 \<and> snd (app e DeleteNews req w) = w)
   \<and> (status (fst (app e DeleteBreakingNews dreq dw)) = 200 \<longrightarrow>
      (\<exists>idx. findIndex (has_id e dreq) (listed (get_breaking_news dw)) = Some idx \<and>
             listed (get_breaking_news (snd (app e DeleteBreakingNews dreq dw))) =
               splice1 idx (listed (get_breaking_news dw))) \<and>
      (length (filter (has_id e dreq) (listed (get_breaking_news dw))) = 1 \<longrightarrow>
         \<not> list_ex (has_id e dreq) (listed (get_breaking_news (snd (app e DeleteBreakingNews dreq dw)))) \<and>
         status (fst (app e DeleteBreakingNews dreq (snd (app e DeleteBreakingNews dreq dw)))) = 404))
   \<and> (status (fst (app e DeleteFeaturedStories dreq dw)) = 200 \<longrightarrow>
      (\<exists>idx. findIndex (has_id e dreq) (listed (get_featured_stories dw)) = Some idx \<and>
             listed (get_featured_stories (snd (app e DeleteFeaturedStories dreq dw))) =
               splice1 idx (listed (get_featured_stories dw))) \<and>
      (length (filter (has_id e dreq) (listed (get_featured_stories dw))) = 1 \<longrightarrow>
         \<not> list_ex (has_id e dreq) (listed (get_featured_stories (snd (app e DeleteFeaturedStories dreq dw)))) \<and>
         status (fst (app e DeleteFeaturedStories dreq (snd (app e DeleteFeaturedStories dreq dw)))) = 404))
   \<and> (status (fst (app e DeleteNews dreq dw)) = 200 \<longrightarrow>
      (\<exists>idx. findIndex (has_id e dreq) (listed (get_news dw)) = Some idx \<and>
             listed (get_news (snd (app e DeleteNews dreq dw))) = splice1 idx (listed (get_news dw))) \<and>
      (length (filter (has_id e dreq) (listed (get_news dw))) = 1 \<longrightarrow>
         \<not> list_ex (has_id e dreq) (listed (get_news (snd (app e DeleteNews dreq dw)))) \<and>
         status (fst (app e DeleteNews dreq (snd (app e DeleteNews dreq dw)))) = 404))"
proof -
  have a1: "status (fst (put_breaking_news e req w)) = 404 \<and> snd (app e PutBreakingNews req w) = w \<and>
      (multer None (breakingNewsUpload_fileFilter e) (req_files req) = Inr (req_files req) \<longrightarrow>
         status (fst (app e PutBreakingNews req w)) = 404) \<and>
      status (fst (app e DeleteBreakingNews req w)) = 404 \<and> snd (app e DeleteBreakingNews req w) = w"
    if "breakingNews (stored w) = Some rs1" "\<forall>r \<in> set rs1. \<not> has_id e req r"
  proof -
    from that(2) have n: "findIndex (has_id e req) rs1 = None" by (simp add: findIndex_None)
    note p = put_breaking_news_404[OF that(1) n] and d = delete_breaking_news_404[OF that(1) n]
    show ?thesis
      by (simp add: p d with_upload_unchanged with_upload_admitted)
  qed
  have a2: "status (fst (put_featured_stories e req w)) = 404 \<and> snd (app e PutFeaturedStories req w) = w \<and>
      (multer (Some [(''image'', 1)]) (posterUpload_fileFilter e) (req_files req) = Inr (req_files req) \<longrightarrow>
         status (fst (app e PutFeaturedStories req w)) = 404) \<and>
      status (fst (app e DeleteFeaturedStories req w)) = 404 \<and> snd (app e DeleteFeaturedStories req w) = w"
    if "featuredStories (stored w) = Some rs2" "\<forall>r \<in> set rs2. \<not> has_id e req r"
  proof -
    from that(2) have n: "findIndex (has_id e req) rs2 = None" by (simp add: findIndex_None)
    then have n': "findIndex (has_id e req) (or_empty (featuredStories (stored w))) = None"
      by (simp add: that(1))
    note p = put_featured_stories_404[OF that(1) n] and d = delete_featured_stories_404[OF n']
    show ?thesis
      by (simp add: p d with_upload_unchanged with_upload_admitted)
  qed
  have a3: "status (fst (put_news e req w)) = 404 \<and> snd (app e PutNews req w) = w \<and>
      (multer (Some [(''image'', 1)]) (posterUpload_fileFilter e) (req_files req) = Inr (req_files req) \<longrightarrow>
         status (fst (app e PutNews req w)) = 404) \<and>
      status (fst (app e DeleteNews req w)) = 404 \<and> snd (app e DeleteNews req w) = w"
    if "news (stored w) = Some rs3" "\<forall>r \<in> set rs3. \<not> has_id e req r"
  proof -
    from that(2) have n: "findIndex (has_id e req) rs3 = None" by (simp add: findIndex_None)
    note p = put_news_404[OF that(1) n] and d = delete_news_404[OF that(1) n]
    show ?thesis
      by (simp add: p d with_upload_unchanged with_upload_admitted)
  qed
  have b1: "(\<exists>idx. findIndex (has_id e dreq) (listed (get_breaking_news dw)) = Some idx \<and>
             listed (get_breaking_news (snd (app e DeleteBreakingNews dreq dw))) =
               splice1 idx (listed (get_breaking_news dw))) \<and>
      (length (filter (has_id e dreq) (listed (get_breaking_news dw))) = 1 \<longrightarrow>
         \<not> list_ex (has_id e dreq) (listed (get_breaking_news (snd (app e DeleteBreakingNews dreq dw)))) \<and>
         status (fst (app e DeleteBreakingNews dreq (snd (app e DeleteBreakingNews dreq dw)))) = 404)"
    if "status (fst (app e DeleteBreakingNews dreq dw)) = 200"
  proof -
    from that have "status (fst (delete_breaking_news e dreq dw)) = 200" by simp
    from delete_breaking_news_200[OF this] obtain rs idx where
      s: "breakingNews (stored dw) = Some rs" and i: "findIndex (has_id e dreq) rs = Some idx"
      and s': "breakingNews (stored (snd (delete_breaking_news e dreq dw))) = Some (splice1 idx rs)"
      by blast
    have u: "findIndex (has_id e dreq) (splice1 idx rs) = None" if "length (filter (has_id e dreq) rs) = 1"
      using findIndex_after_splice[OF i that] .
    show ?thesis
      using s i s' u delete_breaking_news_404[OF s', of e dreq]
      by (auto simp: listed_get_breaking_news findIndex_None list_ex_iff)
  qed
  have b2: "(\<exists>idx. findIndex (has_id e dreq) (listed (get_featured_stories dw)) = Some idx \<and>
             listed (get_featured_stories (snd (app e DeleteFeaturedStories dreq dw))) =
               splice1 idx (listed (get_featured_stories dw))) \<and>
      (length (filter (has_id e dreq) (listed (get_featured_stories dw))) = 1 \<longrightarrow>
         \<not> list_ex (has_id e dreq) (listed (get_featured_stories (snd (app e DeleteFeaturedStories dreq dw)))) \<and>
         status (fst (app e DeleteFeaturedStories dreq (snd (app e DeleteFeaturedStories dreq dw)))) = 404)"
    if "status (fst (app e DeleteFeaturedStories dreq dw)) = 200"
  proof -
    let ?rs = "or_empty (featuredStories (stored dw))"
    from that have "status (fst (delete_featured_stories e dreq dw)) = 200" by simp
    from delete_featured_stories_200[OF this] obtain idx where
      i: "findIndex (has_id e dreq) ?rs = Some idx"
      and s': "featuredStories (stored (snd (delete_featured_stories e dreq dw))) = Some (splice1 idx ?rs)"
      by blast
    have u: "findIndex (has_id e dreq) (splice1 idx ?rs) = None" if "length (filter (has_id e dreq) ?rs) = 1"
      using findIndex_after_splice[OF i that] .
    have d: "delete_featured_stories e dreq (snd (delete_featured_stories e dreq dw)) =
               (res_json 404 [(''error'', JStr ''Featured story not found'')],
                snd (delete_featured_stories e dreq dw))"
      if "length (filter (has_id e dreq) ?rs) = 1"
      by (rule delete_featured_stories_404) (simp add: s' u[OF that])
    show ?thesis
      using i s' u d
      by (auto simp: listed_get_featured_stories findIndex_None list_ex_iff)
  qed
  have b3: "(\<exists>idx. findIndex (has_id e dreq) (listed (get_news dw)) = Some idx \<and>
             listed (get_news (snd (app e DeleteNews dreq dw))) = splice1 idx (listed (get_news dw))) \<and>
      (length (filter (has_id e dreq) (listed (get_news dw))) = 1 \<longrightarrow>
         \<not> list_ex (has_id e dreq) (listed (get_news (snd (app e DeleteNews dreq dw)))) \<and>
         status (fst (app e DeleteNews dreq (snd (app e DeleteNews dreq dw)))) = 404)"
    if "status (fst (app e DeleteNews dreq dw)) = 200"
  proof -
    from that have "status (fst (delete_news e dreq dw)) = 200" by simp
    from delete_news_200[OF this] obtain rs idx where
      s: "news (stored dw) = Some rs" and i: "findIndex (has_id e dreq) rs = Some idx"
      and s': "news (stored (snd (delete_news e dreq dw))) = Some (splice1 idx rs)"
      by blast
    have u: "findIndex (has_id e dreq) (splice1 idx rs) = None" if "length (filter (has_id e dreq) rs) = 1"
      using findIndex_after_splice[OF i that] .
    show ?thesis
      using s i s' u delete_news_404[OF s', of e dreq]
      by (auto simp: listed_get_news findIndex_None list_ex_iff)
  qed
  show ?thesis
    using a1 a2 a3 b1 b2 b3 by blast
qed

theorem not_found_and_delete_witness:
  "breakingNews (stored world0) = Some (or_empty (breakingNews doc0))
   \<and> \<not> list_ex (has_id env0 flood_delete) (or_empty (breakingNews doc0))
   \<and> status (fst (app env0 DeleteBreakingNews flood_delete world0)) = 404
   \<and> snd (app env0 PutBreakingNews flood_delete world0) = world0
   \<and> status (fst (app env0 PutFeaturedStories flood_delete world0)) = 404
   \<and> status (fst (app env0 DeleteNews flood_delete world0)) = 404
   \<and> status (fst (app env0 DeleteBreakingNews seven world0)) = 200
   \<and> length (filter (has_id env0 seven) (listed (get_breaking_news world0))) = 1
   \<and> status (fst (app env0 DeleteBreakingNews seven (snd (app env0 DeleteBreakingNews seven world0)))) = 404
   \<and> status (fst (app env0 DeleteFeaturedStories seven world0)) = 200
   \<and> status (fst (app env0 DeleteFeaturedStories seven (snd (app env0 DeleteFeaturedStories seven world0)))) = 404
   \<and> status (fst (app env0 DeleteNews seven world0)) = 200
   \<and> \<not> list_ex (has_id env0 seven) (listed (get_news (snd (app env0 DeleteNews seven world0))))"
proof -
  have h1: "breakingNews (stored world0) = Some (or_empty (breakingNews doc0))"
    "\<forall>r \<in> set (or_empty (breakingNews doc0)). \<not> has_id env0 flood_delete r"
    by code_simp+
  have h2: "featuredStories (stored world0) = Some (or_empty (featuredStories doc0))"
    "\<forall>r \<in> set (or_empty (featuredStories doc0)). \<not> has_id env0 flood_delete r"
    by code_simp+
  have h3: "news (stored world0) = Some (or_empty (news doc0))"
    "\<forall>r \<in> set (or_empty (news doc0)). \<not> has_id env0 flood_delete r"
    by code_simp+
  have f: "multer None (breakingNewsUpload_fileFilter env0) (req_files flood_delete) = Inr (req_files flood_delete)"
    "multer (Some [(''image'', 1)]) (posterUpload_fileFilter env0) (req_files flood_delete) = Inr (req_files flood_delete)"
    by (simp_all add: flood_delete_def)
  have d1: "status (fst (app env0 DeleteBreakingNews seven world0)) = 200"
    "length (filter (has_id env0 seven) (listed (get_breaking_news world0))) = 1"
    by code_simp+
  have d2: "status (fst (app env0 DeleteFeaturedStories seven world0)) = 200"
    "length (filter (has_id env0 seven) (listed (get_featured_stories world0))) = 1"
    by code_simp+
  have d3: "status (fst (app env0 DeleteNews seven world0)) = 200"
    "length (filter (has_id env0 seven) (listed (get_news world0))) = 1"
    by code_simp+
  from not_found_and_delete[of world0 "or_empty (breakingNews doc0)" env0 flood_delete
         "or_empty (featuredStories doc0)" "or_empty (news doc0)" seven world0]
    h1 h2 h3 f d1 d2 d3
  show ?thesis
    unfolding list_ex_iff by blast
qed

text \<open>
  C2: an update replaces exactly the fields the request provides and keeps the previous
  value of every editable field it omits. PUT /api/featured-stories/:id does not: it
  writes \<open>title\<close>, \<open>description\<close>, \<open>category\<close> and \<open>state\<close> as the request has them,
  \<open>undefined\<close> when omitted, and \<open>content\<close> and \<open>excerpt\<close> fall back to the request's
  description, not to the stored value. The story with id 7 is stored with description
  \<open>D\<close>, content \<open>C\<close>, category \<open>world\<close>, state \<open>KA\<close> and excerpt \<open>E\<close>; after an
  update that provides only a title, answered with HTTP 200, the list shows the story
  without these five fields.
\<close>

theorem put_featured_stories_drops_omitted:
  "listed (get_featured_stories world0) =
     [[(''id'', JsNum 7), (''title'', JsStr ''Old title''), (''description'', JsStr ''D''),
       (''content'', JsStr ''C''), (''category'', JsStr ''world''), (''state'', JsStr ''KA''),
       (''excerpt'', JsStr ''E''), (''imageUrl'', JsStr []), (''priority'', JsNum 1),
       (''views'', JsStr ''0''), (''timestamp'', JsStr ''t0'')]]
   \<and> status (fst (app env0 PutFeaturedStories retitle world0)) = 200
   \<and> listed (get_featured_stories (snd (app env0 PutFeaturedStories retitle world0))) =
     [[(''id'', JsNum 7), (''title'', JsStr ''New title''), (''imageUrl'', JsStr []),
       (''priority'', JsNum 1), (''views'', JsStr ''0''),
       (''timestamp'', JsStr ''2023-11-14T22:13:20.000Z'')]]"
  by code_simp

text \<open>
  The sibling update PUT /api/breaking-news/:id keeps what the request omits: on a
  request that provides only a headline, every other field of the stored item stays (the
  timestamp is renewed).
\<close>

lemma put_breaking_news_keeps_omitted:
  "status (fst (app env0 PutBreakingNews reheadline world0)) = 200
   \<and> listed (get_breaking_news (snd (app env0 PutBreakingNews reheadline world0))) =
     [[(''id'', JsNum 7), (''headline'', JsStr ''New headline''), (''shortDescription'', JsStr ''S''),
       (''fullDescription'', JsStr ''F''), (''category'', JsStr ''world''), (''state'', JsStr ''KA''),
       (''videoUrl'', JsStr []), (''thumbnail'', JsStr []), (''youtubeUrl'', JsStr []),
       (''timestamp'', JsStr ''2023-11-14T22:13:20.000Z'')]]"
  by code_simp

end
